theory Spec2Isabelle
  imports Main
begin

section \<open>Data model (models.py)\<close>

text \<open>
  Each table of \<^verbatim>\<open>models.py\<close> is a list of rows, in table order. A row is a record
  of the key, of every column a router compares or branches on, of every nullable column
  that a response schema of \<^verbatim>\<open>schemas.py\<close> declares non-optional, and of one or two
  plain payload columns (names, description). The remaining payload columns (dates,
  budget, file metadata) are optional in every schema and are copied by the routers like
  \<open>description\<close>; they are left out. The two timestamp columns are filled by the
  store and written by no router; they are left out too. A nullable column is an
  \<open>option\<close>; a column declared \<^verbatim>\<open>nullable=False\<close> is not. Integer columns are Python
  ints. Foreign keys are not enforced by the model: whether the storage engine rejects a
  dangling reference is left to the engine.
\<close>

record user =
  user_id :: int
  full_name :: string
  role :: "string option"

record project_assignment =
  pa_project_id :: int
  pa_user_id :: int

datatype project_status = P_planning | P_in_progress | P_on_hold | P_completed | P_cancelled

record project =
  project_id :: int
  project_name :: string
  description :: "string option"
  project_status :: "project_status option"
  created_by :: "int option"

datatype task_priority = Low | Medium | High | Critical

datatype task_status = Pending | In_progress | Completed | Blocked

record task =
  task_id :: int
  task_project_id :: int
  task_name :: string
  assigned_to :: "int option"
  priority :: "task_priority option"
  status :: "task_status option"
  is_maintenance :: "bool option"
  completion_date :: "int option"

record inventory =
  item_id :: int
  quantity :: "int option"
  reorder_level :: "int option"

record blueprint =
  blueprint_id :: int
  bp_project_id :: int
  file_path :: string
  version :: "string option"
  uploaded_by :: int
  is_active :: "bool option"

record database =
  users :: "user list"
  projects :: "project list"
  project_assignments :: "project_assignment list"
  tasks :: "task list"
  inventory_items :: "inventory list"
  blueprints :: "blueprint list"

section \<open>Errors\<close>

text \<open>
  Every \<^verbatim>\<open>raise HTTPException(status_code=..., detail=...)\<close> of the routers is a value
  \<open>HTTPException code detail\<close>; the detail names the message of the raise site and
  carries the values formatted into it. \<open>IntegrityError\<close> is the commit of a NULL into
  a \<^verbatim>\<open>nullable=False\<close> column. \<open>ValidationError\<close> is what building a response
  schema raises when a field the schema declares non-optional is NULL in the row.
\<close>

datatype detail =
    User_with_ID_not_found int
  | Project_with_ID_not_found "int option"
  | Not_assigned_to_project string string
  | Task_not_found
  | Project_not_found
  | Move_only_to_own_projects
  | Edit_only_own_projects
  | Not_authorized_to_complete
  | Complete_only_assigned
  | Complete_only_own_projects
  | Only_admins_and_pms_create_projects
  | User_role_not_set
  | Invalid_user_role string
  | Blueprint_not_found
  | Not_authorized

datatype error =
    HTTPException (status_code: nat) (detail: detail)
  | IntegrityError
  | ValidationError

text \<open>
  A write returns the store it leaves behind and its answer. The store is the old one
  when the router raises before its commit, and the new one when it raises after it.
\<close>

type_synonym 'a outcome = "database \<times> (error + 'a)"

text \<open>
  A \<^verbatim>\<open>for\<close> loop that builds one response per row and appends it to the result:
  the first row that raises ends the call.
\<close>

fun collect :: "('a \<Rightarrow> error + 'b) \<Rightarrow> 'a list \<Rightarrow> error + 'b list" where
  "collect build [] = Inr []"
| "collect build (x # xs) =
     (case build x of
        Inl e \<Rightarrow> Inl e
      | Inr y \<Rightarrow>
          (case collect build xs of
             Inl e \<Rightarrow> Inl e
           | Inr ys \<Rightarrow> Inr (y # ys)))"

section \<open>Queries shared by the routers\<close>

text \<open>\<^verbatim>\<open>db.query(User).filter(User.user_id == uid).first()\<close>\<close>

definition query_user :: "database \<Rightarrow> int \<Rightarrow> user option" where
  "query_user db uid = find (\<lambda>u. user_id u = uid) (users db)"

text \<open>
  \<^verbatim>\<open>db.query(Project).filter(Project.project_id == pid).first()\<close>; \<open>pid\<close> may be
  \<open>None\<close> when a task update carries an explicit null, and no row has a null key.
\<close>

definition query_project :: "database \<Rightarrow> int option \<Rightarrow> project option" where
  "query_project db pid =
     (case pid of None \<Rightarrow> None
      | Some p \<Rightarrow> find (\<lambda>x. project_id x = p) (projects db))"

text \<open>
  \<^verbatim>\<open>db.query(ProjectAssignment).filter(project_id == pid, user_id == uid).first()\<close>
\<close>

definition query_assignment ::
  "database \<Rightarrow> int option \<Rightarrow> int \<Rightarrow> project_assignment option" where
  "query_assignment db pid uid =
     find (\<lambda>a. Some (pa_project_id a) = pid \<and> pa_user_id a = uid) (project_assignments db)"

text \<open>\<^verbatim>\<open>db.query(Task).filter(Task.task_id == tid).first()\<close>\<close>

definition query_task :: "database \<Rightarrow> int \<Rightarrow> task option" where
  "query_task db tid = find (\<lambda>t. task_id t = tid) (tasks db)"

section \<open>routers/tasks.py\<close>

subsection \<open>validate_task_assignment\<close>

definition validate_task_assignment ::
  "database \<Rightarrow> int option \<Rightarrow> int option \<Rightarrow> error + unit" where
  "validate_task_assignment db pid assignee =
     (case assignee of
        None \<Rightarrow> Inr ()
      | Some uid \<Rightarrow>
          (case query_user db uid of
             None \<Rightarrow> Inl (HTTPException 404 (User_with_ID_not_found uid))
           | Some usr \<Rightarrow>
               (case query_project db pid of
                  None \<Rightarrow> Inl (HTTPException 404 (Project_with_ID_not_found pid))
                | Some prj \<Rightarrow>
                    (case query_assignment db pid uid of
                       None \<Rightarrow>
                         Inl (HTTPException 400
                                (Not_assigned_to_project (full_name usr) (project_name prj)))
                     | Some _ \<Rightarrow> Inr ()))))"

subsection \<open>The task response\<close>

text \<open>
  The \<^verbatim>\<open>TaskResponse\<close> built after every read and write: the row and the two display
  names. \<^verbatim>\<open>if task.assigned_to:\<close> is Python truthiness, so a null and a zero id both
  give \<^verbatim>\<open>'Unassigned'\<close>.
\<close>

record task_response =
  resp_task :: task
  resp_project_name :: string
  assigned_to_name :: string

definition enrich_task :: "database \<Rightarrow> task \<Rightarrow> task_response" where
  "enrich_task db t =
     \<lparr> resp_task = t,
       resp_project_name =
         (case query_project db (Some (task_project_id t)) of
            Some p \<Rightarrow> project_name p
          | None \<Rightarrow> ''Unknown''),
       assigned_to_name =
         (case assigned_to t of
            None \<Rightarrow> ''Unassigned''
          | Some a \<Rightarrow>
              if a = 0 then ''Unassigned''
              else (case query_user db a of
                      Some u \<Rightarrow> full_name u
                    | None \<Rightarrow> ''Unknown'')) \<rparr>"

text \<open>
  \<^verbatim>\<open>TaskResponse.from_orm(task)\<close>: the schema declares \<^verbatim>\<open>priority\<close>,
  \<^verbatim>\<open>status\<close> and \<^verbatim>\<open>is_maintenance\<close> non-optional, while the three columns are
  nullable and \<^verbatim>\<open>TaskUpdate\<close> accepts a null for each.
\<close>

definition task_schema_ok :: "task \<Rightarrow> bool" where
  "task_schema_ok t = (priority t \<noteq> None \<and> status t \<noteq> None \<and> is_maintenance t \<noteq> None)"

text \<open>
  Lines 87 to 100 of the router, repeated after every write: \<^verbatim>\<open>from_orm\<close>, then the
  two names.
\<close>

definition task_response_of :: "database \<Rightarrow> task \<Rightarrow> error + task_response" where
  "task_response_of db t =
     (if task_schema_ok t then Inr (enrich_task db t) else Inl ValidationError)"

subsection \<open>get_tasks\<close>

text \<open>
  The role branches narrow the query, \<^verbatim>\<open>if project_id:\<close> narrows it further (a null
  and a zero filter nothing), then \<^verbatim>\<open>offset(skip).limit(limit)\<close>. \<open>skip\<close> and
  \<open>limit\<close> are taken as naturals. The last branch is a plain \<^verbatim>\<open>else\<close>: every role
  other than admin and project_manager takes it. The responses are built row by row.
\<close>

definition get_tasks ::
  "int option \<Rightarrow> nat \<Rightarrow> nat \<Rightarrow> database \<Rightarrow> user \<Rightarrow> error + task_response list" where
  "get_tasks pid skip limit db current_user =
     (let query =
            (if role current_user = Some ''admin'' then tasks db
             else if role current_user = Some ''project_manager'' then
               (let project_ids =
                      map project_id
                        (filter (\<lambda>p. created_by p = Some (user_id current_user)) (projects db))
                in filter (\<lambda>t. task_project_id t \<in> set project_ids) (tasks db))
             else filter (\<lambda>t. assigned_to t = Some (user_id current_user)) (tasks db));
          query =
            (case pid of
               None \<Rightarrow> query
             | Some p \<Rightarrow>
                 if p = 0 then query else filter (\<lambda>t. task_project_id t = p) query)
      in collect (task_response_of db) (take limit (drop skip query)))"

subsection \<open>create_task\<close>

text \<open>
  \<^verbatim>\<open>TaskCreate\<close>: \<^verbatim>\<open>project_id\<close> and \<^verbatim>\<open>task_name\<close> are required by the schema;
  \<^verbatim>\<open>priority\<close>, \<^verbatim>\<open>status\<close> and \<^verbatim>\<open>is_maintenance\<close> are non-optional with a
  default; \<^verbatim>\<open>assigned_to\<close> is optional.
\<close>

record task_create =
  tc_project_id :: int
  tc_task_name :: string
  tc_assigned_to :: "int option"
  tc_priority :: task_priority
  tc_status :: task_status
  tc_is_maintenance :: bool

text \<open>The key the store gives a new row: above every key of the table.\<close>

definition next_id :: "int list \<Rightarrow> int" where
  "next_id ids = foldr max ids 0 + 1"

definition create_task :: "task_create \<Rightarrow> database \<Rightarrow> user \<Rightarrow> task_response outcome" where
  "create_task payload db current_user =
     (case validate_task_assignment db (Some (tc_project_id payload)) (tc_assigned_to payload) of
        Inl e \<Rightarrow> (db, Inl e)
      | Inr _ \<Rightarrow>
          (let new_task =
                 \<lparr> task_id = next_id (map task_id (tasks db)),
                   task_project_id = tc_project_id payload,
                   task_name = tc_task_name payload,
                   assigned_to = tc_assigned_to payload,
                   priority = Some (tc_priority payload),
                   status = Some (tc_status payload),
                   is_maintenance = Some (tc_is_maintenance payload),
                   completion_date = None \<rparr>;
               db' = db\<lparr>tasks := tasks db @ [new_task]\<rparr>
           in (db', task_response_of db' new_task)))"

subsection \<open>update_task\<close>

text \<open>
  \<^verbatim>\<open>task_update.dict(exclude_unset=True)\<close>: a field of the change set is \<open>None\<close> when
  the key is absent and \<open>Some v\<close> when it is present, where \<open>v\<close> is \<open>None\<close> for an
  explicit null.
\<close>

record task_update =
  tu_project_id :: "int option option"
  tu_task_name :: "string option option"
  tu_assigned_to :: "int option option"
  tu_priority :: "task_priority option option"
  tu_status :: "task_status option option"
  tu_is_maintenance :: "bool option option"
  tu_completion_date :: "int option option"

text \<open>
  \<^verbatim>\<open>for field, value in update_data.items(): setattr(task, field, value)\<close> followed by
  the commit, which refuses a null in \<^verbatim>\<open>project_id\<close> or \<^verbatim>\<open>task_name\<close> and
  accepts one in every other column.
\<close>

definition apply_task_update :: "task_update \<Rightarrow> task \<Rightarrow> error + task" where
  "apply_task_update upd t =
     (if tu_project_id upd = Some None \<or> tu_task_name upd = Some None then Inl IntegrityError
      else Inr
        \<lparr> task_id = task_id t,
          task_project_id = (case tu_project_id upd of Some (Some p) \<Rightarrow> p | _ \<Rightarrow> task_project_id t),
          task_name = (case tu_task_name upd of Some (Some n) \<Rightarrow> n | _ \<Rightarrow> task_name t),
          assigned_to = (case tu_assigned_to upd of Some v \<Rightarrow> v | None \<Rightarrow> assigned_to t),
          priority = (case tu_priority upd of Some v \<Rightarrow> v | None \<Rightarrow> priority t),
          status = (case tu_status upd of Some v \<Rightarrow> v | None \<Rightarrow> status t),
          is_maintenance =
            (case tu_is_maintenance upd of Some v \<Rightarrow> v | None \<Rightarrow> is_maintenance t),
          completion_date =
            (case tu_completion_date upd of Some v \<Rightarrow> v | None \<Rightarrow> completion_date t) \<rparr>)"

text \<open>The UPDATE of the commit: the row with the task's key is replaced.\<close>

definition store_task :: "task \<Rightarrow> database \<Rightarrow> database" where
  "store_task t db =
     db\<lparr>tasks := map (\<lambda>x. if task_id x = task_id t then t else x) (tasks db)\<rparr>"

text \<open>
  The checks a change of \<^verbatim>\<open>project_id\<close> goes through (lines 176 to 200 of the
  router): the new project must exist, and a project manager must have created the new
  project and, when it still exists, the task's current one.
\<close>

definition check_project_move :: "database \<Rightarrow> task \<Rightarrow> task_update \<Rightarrow> user \<Rightarrow> error + unit" where
  "check_project_move db t upd current_user =
     (case tu_project_id upd of
        Some (Some new_project_id) \<Rightarrow>
          (case query_project db (Some new_project_id) of
             None \<Rightarrow> Inl (HTTPException 404 (Project_with_ID_not_found (Some new_project_id)))
           | Some new_project \<Rightarrow>
               if role current_user = Some ''project_manager'' then
                 (if created_by new_project \<noteq> Some (user_id current_user)
                  then Inl (HTTPException 403 Move_only_to_own_projects)
                  else
                    (case query_project db (Some (task_project_id t)) of
                       Some current_project \<Rightarrow>
                         if created_by current_project \<noteq> Some (user_id current_user)
                         then Inl (HTTPException 403 Edit_only_own_projects)
                         else Inr ()
                     | None \<Rightarrow> Inr ()))
               else Inr ())
      | _ \<Rightarrow> Inr ())"

text \<open>\<^verbatim>\<open>update_data.get('project_id', task.project_id)\<close>\<close>

definition final_project_id :: "task \<Rightarrow> task_update \<Rightarrow> int option" where
  "final_project_id t upd =
     (case tu_project_id upd of Some v \<Rightarrow> v | None \<Rightarrow> Some (task_project_id t))"

text \<open>\<^verbatim>\<open>update_data.get('assigned_to', task.assigned_to)\<close>\<close>

definition final_assigned_to :: "task \<Rightarrow> task_update \<Rightarrow> int option" where
  "final_assigned_to t upd =
     (case tu_assigned_to upd of Some v \<Rightarrow> v | None \<Rightarrow> assigned_to t)"

text \<open>
  Lines 207 to 213: the assignment is validated only when \<^verbatim>\<open>assigned_to\<close> or
  \<^verbatim>\<open>project_id\<close> is in the change set, and an explicit null assignee passes without
  the call.
\<close>

definition check_assignment_change :: "database \<Rightarrow> task \<Rightarrow> task_update \<Rightarrow> error + unit" where
  "check_assignment_change db t upd =
     (if tu_assigned_to upd \<noteq> None \<or> tu_project_id upd \<noteq> None then
        (if tu_assigned_to upd = Some None then Inr ()
         else validate_task_assignment db (final_project_id t upd) (final_assigned_to t upd))
      else Inr ())"

text \<open>
  The response is built after the commit (line 223 after line 219): a row that the
  schema refuses is stored all the same, and the call raises.
\<close>

definition update_task :: "int \<Rightarrow> task_update \<Rightarrow> database \<Rightarrow> user \<Rightarrow> task_response outcome" where
  "update_task tid upd db current_user =
     (case query_task db tid of
        None \<Rightarrow> (db, Inl (HTTPException 404 Task_not_found))
      | Some t \<Rightarrow>
          (case check_project_move db t upd current_user of
             Inl e \<Rightarrow> (db, Inl e)
           | Inr _ \<Rightarrow>
               (case check_assignment_change db t upd of
                  Inl e \<Rightarrow> (db, Inl e)
                | Inr _ \<Rightarrow>
                    (case apply_task_update upd t of
                       Inl e \<Rightarrow> (db, Inl e)
                     | Inr t' \<Rightarrow>
                         (let db' = store_task t' db
                          in (db', task_response_of db' t'))))))"

subsection \<open>mark_task_done\<close>

text \<open>\<open>today\<close> is \<^verbatim>\<open>date.today()\<close>.\<close>

definition mark_task_done :: "int \<Rightarrow> int \<Rightarrow> database \<Rightarrow> user \<Rightarrow> task_response outcome" where
  "mark_task_done tid today db current_user =
     (case query_task db tid of
        None \<Rightarrow> (db, Inl (HTTPException 404 Task_not_found))
      | Some t \<Rightarrow>
          if role current_user \<notin> {Some ''admin'', Some ''project_manager'',
                                   Some ''engineer'', Some ''technician''}
          then (db, Inl (HTTPException 403 Not_authorized_to_complete))
          else if role current_user \<in> {Some ''engineer'', Some ''technician''}
                  \<and> assigned_to t \<noteq> Some (user_id current_user)
          then (db, Inl (HTTPException 403 Complete_only_assigned))
          else if role current_user = Some ''project_manager''
                  \<and> (case query_project db (Some (task_project_id t)) of
                        Some p \<Rightarrow> created_by p \<noteq> Some (user_id current_user)
                      | None \<Rightarrow> False)
          then (db, Inl (HTTPException 403 Complete_only_own_projects))
          else
            (let t' = t\<lparr>status := Some Completed, completion_date := Some today\<rparr>;
                 db' = store_task t' db
             in (db', task_response_of db' t')))"

section \<open>routers/projects.py\<close>

text \<open>\<^verbatim>\<open>project.assignments\<close>: the assignment rows of one project.\<close>

definition assignments_of :: "database \<Rightarrow> int \<Rightarrow> project_assignment list" where
  "assignments_of db pid = filter (\<lambda>a. pa_project_id a = pid) (project_assignments db)"

text \<open>
  The \<^verbatim>\<open>ProjectResponse\<close>: the row, \<^verbatim>\<open>assigned_users\<close>, and the names the list and
  read-one endpoints add. \<^verbatim>\<open>if project.created_by:\<close> is truthiness again.
\<close>

record project_response =
  resp_project :: project
  assigned_users :: "int list"
  owner_name :: "string option"
  team_members :: "(int \<times> string \<times> string option) list"

definition enrich_project :: "database \<Rightarrow> project \<Rightarrow> project_response" where
  "enrich_project db p =
     \<lparr> resp_project = p,
       assigned_users = map pa_user_id (assignments_of db (project_id p)),
       owner_name =
         (case created_by p of
            None \<Rightarrow> None
          | Some c \<Rightarrow>
              if c = 0 then None
              else (case query_user db c of Some u \<Rightarrow> Some (full_name u) | None \<Rightarrow> None)),
       team_members =
         concat (map (\<lambda>a. case query_user db (pa_user_id a) of
                             Some u \<Rightarrow> [(user_id u, full_name u, role u)]
                           | None \<Rightarrow> [])
                     (assignments_of db (project_id p))) \<rparr>"

text \<open>
  \<^verbatim>\<open>ProjectResponse.from_orm(project)\<close>: the schema declares \<^verbatim>\<open>status\<close>
  non-optional, while the column is nullable and \<^verbatim>\<open>ProjectUpdate\<close> accepts a null.
\<close>

definition project_schema_ok :: "project \<Rightarrow> bool" where
  "project_schema_ok p = (project_status p \<noteq> None)"

definition project_response_of :: "database \<Rightarrow> project \<Rightarrow> error + project_response" where
  "project_response_of db p =
     (if project_schema_ok p then Inr (enrich_project db p) else Inl ValidationError)"

subsection \<open>get_projects\<close>

definition get_projects ::
  "nat \<Rightarrow> nat \<Rightarrow> database \<Rightarrow> user \<Rightarrow> error + project_response list" where
  "get_projects skip limit db current_user =
     (let found =
            (if role current_user = Some ''admin'' then
               take limit (drop skip (projects db))
             else if role current_user = Some ''project_manager'' then
               take limit (drop skip
                 (filter (\<lambda>p. created_by p = Some (user_id current_user)) (projects db)))
             else
               (let project_ids =
                      map pa_project_id
                        (filter (\<lambda>a. pa_user_id a = user_id current_user)
                                (project_assignments db))
                in take limit (drop skip
                     (filter (\<lambda>p. project_id p \<in> set project_ids) (projects db)))))
      in collect (project_response_of db) found)"

subsection \<open>create_project\<close>

text \<open>\<^verbatim>\<open>ProjectCreate\<close>: the status is non-optional, with a default.\<close>

record project_create =
  pc_project_name :: string
  pc_description :: "string option"
  pc_status :: project_status
  pc_assigned_user_ids :: "int list option"

text \<open>
  The response of create and update carries \<^verbatim>\<open>assigned_users\<close> only; the two name
  fields keep the defaults of the schema.
\<close>

definition write_response :: "database \<Rightarrow> project \<Rightarrow> project_response" where
  "write_response db p =
     \<lparr> resp_project = p,
       assigned_users = map pa_user_id (assignments_of db (project_id p)),
       owner_name = None,
       team_members = [] \<rparr>"

definition write_response_of :: "database \<Rightarrow> project \<Rightarrow> error + project_response" where
  "write_response_of db p =
     (if project_schema_ok p then Inr (write_response db p) else Inl ValidationError)"

definition create_project ::
  "project_create \<Rightarrow> database \<Rightarrow> user \<Rightarrow> project_response outcome" where
  "create_project payload db current_user =
     (if role current_user \<notin> {Some ''admin'', Some ''project_manager''}
      then (db, Inl (HTTPException 403 Only_admins_and_pms_create_projects))
      else
        (let new_project =
               \<lparr> project_id = next_id (map project_id (projects db)),
                 project_name = pc_project_name payload,
                 description = pc_description payload,
                 project_status = Some (pc_status payload),
                 created_by = Some (user_id current_user) \<rparr>;
             new_assignments =
               (case pc_assigned_user_ids payload of
                  None \<Rightarrow> []
                | Some ids \<Rightarrow>
                    map (\<lambda>u. \<lparr> pa_project_id = project_id new_project, pa_user_id = u \<rparr>) ids);
             db' = db\<lparr> projects := projects db @ [new_project],
                       project_assignments := project_assignments db @ new_assignments \<rparr>
         in (db', write_response_of db' new_project)))"

subsection \<open>update_project\<close>

text \<open>
  \<^verbatim>\<open>ProjectUpdate\<close>: the scalar fields are a change set as in \<open>task_update\<close>;
  \<^verbatim>\<open>assigned_user_ids\<close> is read as an attribute, so an absent key and an explicit
  null are the same \<open>None\<close>.
\<close>

record project_update =
  pu_project_name :: "string option option"
  pu_description :: "string option option"
  pu_status :: "project_status option option"
  pu_assigned_user_ids :: "int list option"

definition apply_project_update :: "project_update \<Rightarrow> project \<Rightarrow> error + project" where
  "apply_project_update upd p =
     (if pu_project_name upd = Some None then Inl IntegrityError
      else Inr
        \<lparr> project_id = project_id p,
          project_name = (case pu_project_name upd of Some (Some n) \<Rightarrow> n | _ \<Rightarrow> project_name p),
          description = (case pu_description upd of Some v \<Rightarrow> v | None \<Rightarrow> description p),
          project_status = (case pu_status upd of Some v \<Rightarrow> v | None \<Rightarrow> project_status p),
          created_by = created_by p \<rparr>)"

text \<open>
  Lines 156 to 162: the rows of the project are deleted from the assignment table and
  one row per listed user is added. No task is read or written.
\<close>

definition replace_team :: "int \<Rightarrow> int list \<Rightarrow> project_assignment list \<Rightarrow> project_assignment list" where
  "replace_team pid ids rows =
     filter (\<lambda>a. pa_project_id a \<noteq> pid) rows
       @ map (\<lambda>u. \<lparr> pa_project_id = pid, pa_user_id = u \<rparr>) ids"

definition update_project ::
  "int \<Rightarrow> project_update \<Rightarrow> database \<Rightarrow> user \<Rightarrow> project_response outcome" where
  "update_project pid upd db current_user =
     (case query_project db (Some pid) of
        None \<Rightarrow> (db, Inl (HTTPException 404 Project_not_found))
      | Some p \<Rightarrow>
          (case apply_project_update upd p of
             Inl e \<Rightarrow> (db, Inl e)
           | Inr p' \<Rightarrow>
               (let db' =
                      db\<lparr> projects :=
                            map (\<lambda>x. if project_id x = pid then p' else x) (projects db),
                          project_assignments :=
                            (case pu_assigned_user_ids upd of
                               None \<Rightarrow> project_assignments db
                             | Some ids \<Rightarrow> replace_team pid ids (project_assignments db)) \<rparr>
                in (db', write_response_of db' p'))))"

subsection \<open>delete_project\<close>

text \<open>
  \<^verbatim>\<open>db.delete(project)\<close> with the cascades of the relationships in \<^verbatim>\<open>models.py\<close>:
  the project's tasks, blueprints and assignments go with it. Nothing is built after the
  commit, so the answer is the new store or the error.
\<close>

definition delete_project :: "int \<Rightarrow> database \<Rightarrow> user \<Rightarrow> error + database" where
  "delete_project pid db current_user =
     (case query_project db (Some pid) of
        None \<Rightarrow> Inl (HTTPException 404 Project_not_found)
      | Some p \<Rightarrow>
          Inr (db\<lparr> projects := filter (\<lambda>x. project_id x \<noteq> pid) (projects db),
                    tasks := filter (\<lambda>t. task_project_id t \<noteq> pid) (tasks db),
                    blueprints := filter (\<lambda>b. bp_project_id b \<noteq> pid) (blueprints db),
                    project_assignments :=
                      filter (\<lambda>a. pa_project_id a \<noteq> pid) (project_assignments db) \<rparr>))"

section \<open>routers/dashboard.py\<close>

record dashboard_stats =
  total_projects :: nat
  total_tasks :: nat
  completed_tasks :: nat
  total_inventory :: nat
  low_stock_items :: nat

text \<open>
  The two task filters on the status column. In SQL a comparison with a NULL status is
  not true, so a task without status passes neither of them.
\<close>

definition is_open :: "task \<Rightarrow> bool" where
  "is_open t = (case status t of None \<Rightarrow> False | Some s \<Rightarrow> s \<noteq> Completed)"

definition is_completed :: "task \<Rightarrow> bool" where
  "is_completed t = (status t = Some Completed)"

text \<open>\<^verbatim>\<open>Inventory.quantity <= Inventory.reorder_level\<close>, false on a NULL operand.\<close>

definition is_low_stock :: "inventory \<Rightarrow> bool" where
  "is_low_stock i =
     (case (quantity i, reorder_level i) of
        (Some q, Some r) \<Rightarrow> q \<le> r
      | _ \<Rightarrow> False)"

definition get_dashboard_stats :: "database \<Rightarrow> user \<Rightarrow> error + dashboard_stats" where
  "get_dashboard_stats db current_user =
     (case role current_user of
        None \<Rightarrow> Inl (HTTPException 500 User_role_not_set)
      | Some r \<Rightarrow>
          (let uid = user_id current_user;
               counted =
                 (if r = ''admin'' then
                    Inr (length (projects db),
                         length (filter is_open (tasks db)),
                         length (filter is_completed (tasks db)))
                  else if r = ''project_manager'' then
                    (let pm_project_ids =
                           map project_id
                             (filter (\<lambda>p. created_by p = Some uid) (projects db))
                     in if pm_project_ids \<noteq> [] then
                          Inr (length pm_project_ids,
                               length (filter (\<lambda>t. task_project_id t \<in> set pm_project_ids
                                                    \<and> is_open t) (tasks db)),
                               length (filter (\<lambda>t. task_project_id t \<in> set pm_project_ids
                                                    \<and> is_completed t) (tasks db)))
                        else Inr (0, 0, 0))
                  else if r \<in> {''engineer'', ''technician''} then
                    (let assigned_project_ids =
                           remdups (map pa_project_id
                             (filter (\<lambda>a. pa_user_id a = uid) (project_assignments db)))
                     in if assigned_project_ids \<noteq> [] then
                          Inr (length assigned_project_ids,
                               length (filter (\<lambda>t. assigned_to t = Some uid
                                                    \<and> task_project_id t \<in> set assigned_project_ids
                                                    \<and> is_open t) (tasks db)),
                               length (filter (\<lambda>t. assigned_to t = Some uid
                                                    \<and> task_project_id t \<in> set assigned_project_ids
                                                    \<and> is_completed t) (tasks db)))
                        else Inr (length assigned_project_ids, 0, 0))
                  else Inl (HTTPException 403 (Invalid_user_role r)))
           in case counted of
                Inl e \<Rightarrow> Inl e
              | Inr (n_projects, n_tasks, n_completed) \<Rightarrow>
                  Inr \<lparr> total_projects = n_projects,
                        total_tasks = n_tasks,
                        completed_tasks = n_completed,
                        total_inventory = length (inventory_items db),
                        low_stock_items = length (filter is_low_stock (inventory_items db)) \<rparr>))"

section \<open>routers/blueprints.py\<close>

text \<open>
  The response adds the uploader's name to the row, \<^verbatim>\<open>"[User deleted]"\<close> when the
  uploader is gone; the field is optional in the schema and absent from the answer of
  \<open>update_blueprint\<close>.
\<close>

record blueprint_response =
  resp_blueprint :: blueprint
  uploader_name :: "string option"

definition enrich_blueprint :: "database \<Rightarrow> blueprint \<Rightarrow> blueprint_response" where
  "enrich_blueprint db b =
     \<lparr> resp_blueprint = b,
       uploader_name =
         (case query_user db (uploaded_by b) of
            Some u \<Rightarrow> Some (full_name u)
          | None \<Rightarrow> Some ''[User deleted]'') \<rparr>"

text \<open>
  \<^verbatim>\<open>BlueprintSchema.from_orm(blueprint)\<close>: the schema declares \<^verbatim>\<open>version\<close> and
  \<^verbatim>\<open>is_active\<close> non-optional, while both columns are nullable and
  \<^verbatim>\<open>BlueprintUpdate\<close> accepts a null for each.
\<close>

definition blueprint_schema_ok :: "blueprint \<Rightarrow> bool" where
  "blueprint_schema_ok b = (version b \<noteq> None \<and> is_active b \<noteq> None)"

definition blueprint_response_of :: "database \<Rightarrow> blueprint \<Rightarrow> error + blueprint_response" where
  "blueprint_response_of db b =
     (if blueprint_schema_ok b then Inr (enrich_blueprint db b) else Inl ValidationError)"

subsection \<open>get_blueprints\<close>

definition get_blueprints ::
  "int option \<Rightarrow> nat \<Rightarrow> nat \<Rightarrow> database \<Rightarrow> user \<Rightarrow> error + blueprint_response list" where
  "get_blueprints pid skip limit db current_user =
     (let query = filter (\<lambda>b. is_active b = Some True) (blueprints db);
          query =
            (case pid of
               None \<Rightarrow> query
             | Some p \<Rightarrow>
                 if p = 0 then query else filter (\<lambda>b. bp_project_id b = p) query);
          query =
            (if role current_user \<in> {Some ''engineer'', Some ''technician''} then
               (let assigned_project_ids =
                      remdups (map pa_project_id
                        (filter (\<lambda>a. pa_user_id a = user_id current_user)
                                (project_assignments db)))
                in filter (\<lambda>b. bp_project_id b \<in> set assigned_project_ids) query)
             else query)
      in collect (blueprint_response_of db) (take limit (drop skip query)))"

subsection \<open>get_blueprint\<close>

definition get_blueprint :: "int \<Rightarrow> database \<Rightarrow> user \<Rightarrow> error + blueprint_response" where
  "get_blueprint bid db current_user =
     (case find (\<lambda>b. blueprint_id b = bid) (blueprints db) of
        None \<Rightarrow> Inl (HTTPException 404 Blueprint_not_found)
      | Some b \<Rightarrow> blueprint_response_of db b)"

subsection \<open>update_blueprint\<close>

record blueprint_update =
  bu_version :: "string option option"
  bu_is_active :: "bool option option"

text \<open>
  The row is returned as it is and the framework builds the \<^verbatim>\<open>BlueprintSchema\<close> of
  the \<^verbatim>\<open>response_model\<close> from it, after the commit.
\<close>

definition update_blueprint ::
  "int \<Rightarrow> blueprint_update \<Rightarrow> database \<Rightarrow> user \<Rightarrow> blueprint_response outcome" where
  "update_blueprint bid upd db current_user =
     (if role current_user \<notin> {Some ''admin'', Some ''project_manager'',
                               Some ''engineer'', Some ''technician''}
      then (db, Inl (HTTPException 403 Not_authorized))
      else
        (case find (\<lambda>b. blueprint_id b = bid) (blueprints db) of
           None \<Rightarrow> (db, Inl (HTTPException 404 Blueprint_not_found))
         | Some b \<Rightarrow>
             (let b' = b\<lparr> version := (case bu_version upd of Some v \<Rightarrow> v | None \<Rightarrow> version b),
                          is_active :=
                            (case bu_is_active upd of Some v \<Rightarrow> v | None \<Rightarrow> is_active b) \<rparr>;
                  db' = db\<lparr>blueprints :=
                            map (\<lambda>x. if blueprint_id x = bid then b' else x) (blueprints db)\<rparr>
              in (db', if blueprint_schema_ok b'
                       then Inr \<lparr> resp_blueprint = b', uploader_name = None \<rparr>
                       else Inl ValidationError))))"

subsection \<open>delete_blueprint\<close>

text \<open>
  \<open>files\<close> is the set of paths that exist in the upload directory. The file is removed
  when it is there; the row is kept and marked inactive. The answer is a message, built
  from no row.
\<close>

definition delete_blueprint ::
  "int \<Rightarrow> database \<Rightarrow> string list \<Rightarrow> user \<Rightarrow> error + (database \<times> string list)" where
  "delete_blueprint bid db files current_user =
     (if role current_user \<notin> {Some ''admin'', Some ''project_manager''}
      then Inl (HTTPException 403 Not_authorized)
      else
        (case find (\<lambda>b. blueprint_id b = bid) (blueprints db) of
           None \<Rightarrow> Inl (HTTPException 404 Blueprint_not_found)
         | Some b \<Rightarrow>
             (let files' =
                    (if file_path b \<in> set files
                     then filter (\<lambda>f. f \<noteq> file_path b) files
                     else files);
                  b' = b\<lparr>is_active := Some False\<rparr>
              in Inr (db\<lparr>blueprints :=
                            map (\<lambda>x. if blueprint_id x = bid then b' else x) (blueprints db)\<rparr>,
                      files'))))"

section \<open>The assignment invariant and sequences of operations\<close>

text \<open>
  The invariant of the data model: every task is unassigned or assigned to a user for
  whom the assignment table has a row with the task's project.
\<close>

definition assignment_invariant :: "database \<Rightarrow> bool" where
  "assignment_invariant db =
     list_all (\<lambda>t. case assigned_to t of
                     None \<Rightarrow> True
                   | Some uid \<Rightarrow> query_assignment db (Some (task_project_id t)) uid \<noteq> None)
              (tasks db)"

text \<open>
  The three writes the invariant is stated for, each with its arguments and its
  principal. Performing one gives the store it leaves behind, whether it returns or
  raises.
\<close>

datatype operation =
    Task_create task_create user
  | Task_update int task_update user
  | Project_update int project_update user

fun perform :: "database \<Rightarrow> operation \<Rightarrow> database" where
  "perform db (Task_create payload u) = fst (create_task payload db u)"
| "perform db (Task_update tid upd u) = fst (update_task tid upd db u)"
| "perform db (Project_update pid upd u) = fst (update_project pid upd db u)"

definition run :: "database \<Rightarrow> operation list \<Rightarrow> database" where
  "run db ops = foldl perform db ops"

text \<open>
  The condition under which a team replacement is harmless: the new team still contains
  every user who is, when the operation runs, the assignee of a task of that project.
\<close>

fun keeps_assignees :: "database \<Rightarrow> operation \<Rightarrow> bool" where
  "keeps_assignees db (Project_update pid upd u) =
     (case pu_assigned_user_ids upd of
        None \<Rightarrow> True
      | Some ids \<Rightarrow>
          list_all (\<lambda>t. task_project_id t = pid \<longrightarrow>
                           (case assigned_to t of None \<Rightarrow> True | Some a \<Rightarrow> a \<in> set ids))
                   (tasks db))"
| "keeps_assignees db _ = True"

fun teams_keep_assignees :: "database \<Rightarrow> operation list \<Rightarrow> bool" where
  "teams_keep_assignees db [] = True"
| "teams_keep_assignees db (x # xs) =
     (keeps_assignees db x \<and> teams_keep_assignees (perform db x) xs)"

section \<open>Team membership of a task's project\<close>

text \<open>
  Whether the principal has an assignment row for the project of a task: the second
  condition of the engineer and technician task counts in the dashboard.
\<close>

definition on_team :: "database \<Rightarrow> user \<Rightarrow> task \<Rightarrow> bool" where
  "on_team db u t = (query_assignment db (Some (task_project_id t)) (user_id u) \<noteq> None)"

section \<open>A sample store\<close>

text \<open>
  Two projects created by the project manager Bob, each with a one-person team, three
  tasks, two inventory items and one blueprint. The theorems below are run on it.
\<close>

definition alice :: user where
  "alice = \<lparr> user_id = 1, full_name = ''Alice'', role = Some ''admin'' \<rparr>"

definition bob :: user where
  "bob = \<lparr> user_id = 2, full_name = ''Bob'', role = Some ''project_manager'' \<rparr>"

definition carol :: user where
  "carol = \<lparr> user_id = 3, full_name = ''Carol'', role = Some ''engineer'' \<rparr>"

definition dave :: user where
  "dave = \<lparr> user_id = 4, full_name = ''Dave'', role = Some ''technician'' \<rparr>"

definition frank :: user where
  "frank = \<lparr> user_id = 6, full_name = ''Frank'', role = Some ''project_manager'' \<rparr>"

definition hull_refit :: project where
  "hull_refit = \<lparr> project_id = 1, project_name = ''Hull refit'', description = None,
                  project_status = Some P_in_progress, created_by = Some 2 \<rparr>"

definition engine_overhaul :: project where
  "engine_overhaul = \<lparr> project_id = 2, project_name = ''Engine overhaul'', description = None,
                       project_status = Some P_planning, created_by = Some 2 \<rparr>"

definition weld_task :: task where
  "weld_task = \<lparr> task_id = 1, task_project_id = 1, task_name = ''Weld plates'',
                 assigned_to = Some 3, priority = Some High, status = Some Pending,
                 is_maintenance = Some False, completion_date = None \<rparr>"

definition paint_task :: task where
  "paint_task = \<lparr> task_id = 2, task_project_id = 1, task_name = ''Paint hull'',
                  assigned_to = None, priority = Some Medium, status = Some In_progress,
                  is_maintenance = Some False, completion_date = None \<rparr>"

definition pump_task :: task where
  "pump_task = \<lparr> task_id = 3, task_project_id = 2, task_name = ''Replace pump'',
                 assigned_to = Some 4, priority = Some Low, status = Some Completed,
                 is_maintenance = Some True, completion_date = Some 100 \<rparr>"

definition hull_plan :: blueprint where
  "hull_plan = \<lparr> blueprint_id = 1, bp_project_id = 1,
                 file_path = ''uploads/blueprints/1_hull.pdf'', version = Some ''1.0'',
                 uploaded_by = 3, is_active = Some True \<rparr>"

definition yard :: database where
  "yard =
     \<lparr> users = [alice, bob, carol, dave, frank],
       projects = [hull_refit, engine_overhaul],
       project_assignments =
         [\<lparr> pa_project_id = 1, pa_user_id = 3 \<rparr>, \<lparr> pa_project_id = 2, pa_user_id = 4 \<rparr>],
       tasks = [weld_task, paint_task, pump_task],
       inventory_items =
         [\<lparr> item_id = 1, quantity = Some 5, reorder_level = Some 10 \<rparr>,
          \<lparr> item_id = 2, quantity = Some 20, reorder_level = Some 10 \<rparr>],
       blueprints = [hull_plan] \<rparr>"

text \<open>The change set that changes nothing, from which the others are made.\<close>

definition no_change :: task_update where
  "no_change = \<lparr> tu_project_id = None, tu_task_name = None, tu_assigned_to = None,
                  tu_priority = None, tu_status = None, tu_is_maintenance = None,
                  tu_completion_date = None \<rparr>"

text \<open>Change sets for task 1: a move to project 2, alone and with a new assignee.\<close>

definition move_to_engine :: task_update where
  "move_to_engine = no_change\<lparr> tu_project_id := Some (Some 2) \<rparr>"

definition move_and_reassign :: task_update where
  "move_and_reassign = no_change\<lparr> tu_project_id := Some (Some 2),
                                   tu_assigned_to := Some (Some 4) \<rparr>"

text \<open>
  Team replacements for project 1: by the empty team, and by a team that keeps Carol.
  \<open>refit_ops\<close> creates a task for Carol on project 1, moves task 1 to project 2
  and to Dave, and then replaces the team of project 1 by Carol and Dave.
\<close>

definition empty_team :: project_update where
  "empty_team = \<lparr> pu_project_name = None, pu_description = None, pu_status = None,
                   pu_assigned_user_ids = Some [] \<rparr>"

definition wider_team :: project_update where
  "wider_team = \<lparr> pu_project_name = None, pu_description = None, pu_status = None,
                   pu_assigned_user_ids = Some [3, 4] \<rparr>"

definition grind_task :: task_create where
  "grind_task = \<lparr> tc_project_id = 1, tc_task_name = ''Grind welds'',
                   tc_assigned_to = Some 3, tc_priority = Medium, tc_status = Pending,
                   tc_is_maintenance = False \<rparr>"

definition refit_ops :: "operation list" where
  "refit_ops = [Task_create grind_task carol, Task_update 1 move_and_reassign bob,
                Project_update 1 wider_team bob]"

text \<open>A rename of a project, and a change set that completes a task.\<close>

definition rename_project :: project_update where
  "rename_project = \<lparr> pu_project_name = Some (Some ''Scrapped''), pu_description = None,
                       pu_status = None, pu_assigned_user_ids = None \<rparr>"

definition new_project :: project_create where
  "new_project = \<lparr> pc_project_name = ''Deck crane'', pc_description = None,
                    pc_status = P_planning, pc_assigned_user_ids = None \<rparr>"

definition mark_completed :: task_update where
  "mark_completed = no_change\<lparr> tu_status := Some (Some Completed),
                                tu_completion_date := Some (Some 200) \<rparr>"

text \<open>
  The store after the team of project 1 was replaced by the empty team: task 1 is still
  assigned to Carol, who is on no team.
\<close>

definition yard_without_team :: database where
  "yard_without_team = yard\<lparr>project_assignments := [\<lparr> pa_project_id = 2, pa_user_id = 4 \<rparr>]\<rparr>"

text \<open>
  A change set with an explicit null status, and the store it leaves: task 1 has no
  status.
\<close>

definition clear_status :: task_update where
  "clear_status = no_change\<lparr> tu_status := Some None \<rparr>"

definition yard_null_status :: database where
  "yard_null_status = yard\<lparr>tasks := [weld_task\<lparr>status := None\<rparr>, paint_task, pump_task]\<rparr>"

text \<open>
  A blueprint change set with an explicit null version, and the store it leaves:
  blueprint 1 has no version.
\<close>

definition drop_version :: blueprint_update where
  "drop_version = \<lparr> bu_version = Some None, bu_is_active = None \<rparr>"

definition yard_unversioned :: database where
  "yard_unversioned = yard\<lparr>blueprints := [hull_plan\<lparr>version := None\<rparr>]\<rparr>"

lemmas yard_defs =
  yard_def alice_def bob_def carol_def dave_def frank_def hull_refit_def
  engine_overhaul_def weld_task_def paint_task_def pump_task_def hull_plan_def

lemmas query_defs = query_user_def query_project_def query_assignment_def query_task_def

section \<open>Shared lemmas\<close>

text \<open>Replacing the rows that carry a key does not move the first row with that key.\<close>

lemma find_replace:
  "find (\<lambda>x. key x = k) xs = Some x \<Longrightarrow> key x' = k \<Longrightarrow>
   find (\<lambda>x. key x = k) (map (\<lambda>y. if key y = k then x' else y) xs) = Some x'"
  by (induction xs) (auto split: if_splits)

lemma query_task_id: "query_task db tid = Some t \<Longrightarrow> task_id t = tid"
  by (auto simp: query_task_def dest: find_Some_iff [THEN iffD1])

lemma apply_task_update_id: "apply_task_update upd t = Inr t' \<Longrightarrow> task_id t' = task_id t"
  by (auto simp: apply_task_update_def split: if_splits)

lemma query_task_store:
  "query_task db tid = Some t \<Longrightarrow> task_id t' = tid \<Longrightarrow>
   query_task (store_task t' db) tid = Some t'"
  using find_replace [of task_id tid "tasks db" t t']
  by (simp add: query_task_def store_task_def)

text \<open>Team membership as the assignment query sees it.\<close>

lemma is_member_iff:
  "query_assignment db pid uid \<noteq> None \<longleftrightarrow>
     (\<exists>a \<in> set (project_assignments db). Some (pa_project_id a) = pid \<and> pa_user_id a = uid)"
  by (auto simp: query_assignment_def find_None_iff)

text \<open>The row inside a task response is the row that was enriched.\<close>

lemma resp_task_enrich [simp]: "resp_task (enrich_task db t) = t"
  by (simp add: enrich_task_def)

lemma map_resp_task_enrich [simp]: "map (resp_task \<circ> enrich_task db) ts = ts"
  by (induction ts) simp_all

text \<open>
  A loop over builders that refuse a row with one fixed error returns all responses
  when every row passes, and that error otherwise.
\<close>

lemma collect_if:
  assumes "\<And>x. build x = (if ok x then Inr (f x) else Inl e)"
  shows "collect build xs = (if list_all ok xs then Inr (map f xs) else Inl e)"
  by (induction xs) (auto simp: assms)

lemma collect_tasks:
  "collect (task_response_of db) ts
     = (if list_all task_schema_ok ts then Inr (map (enrich_task db) ts) else Inl ValidationError)"
  by (rule collect_if) (simp add: task_response_of_def)

lemma collect_projects:
  "collect (project_response_of db) ps
     = (if list_all project_schema_ok ps then Inr (map (enrich_project db) ps)
        else Inl ValidationError)"
  by (rule collect_if) (simp add: project_response_of_def)

lemma collect_blueprints:
  "collect (blueprint_response_of db) bs
     = (if list_all blueprint_schema_ok bs then Inr (map (enrich_blueprint db) bs)
        else Inl ValidationError)"
  by (rule collect_if) (simp add: blueprint_response_of_def)

section \<open>Assignment validation\<close>

text \<open>
  Claim C5. Assignment validation succeeds unconditionally when the proposed assignee is
  null. Otherwise it answers 404 with the user-not-found detail when the user does not
  exist; 404 with the project-not-found detail when the user exists and the project does
  not; 400 with the not-a-team-member detail, carrying the user's full name and the
  project's name, when both exist and no assignment row joins them; and, when both
  exist, it succeeds exactly when an assignment row joins them. The user is looked up
  before the project, so a missing user is reported first.
\<close>

theorem validate_task_assignment_kinds:
  "validate_task_assignment db pid None = Inr ()
   \<and> (query_user db uid = None \<longrightarrow>
        validate_task_assignment db pid (Some uid)
          = Inl (HTTPException 404 (User_with_ID_not_found uid)))
   \<and> (query_user db uid = Some usr \<and> query_project db pid = None \<longrightarrow>
        validate_task_assignment db pid (Some uid)
          = Inl (HTTPException 404 (Project_with_ID_not_found pid)))
   \<and> (query_user db uid = Some usr \<and> query_project db pid = Some prj
        \<and> query_assignment db pid uid = None \<longrightarrow>
        validate_task_assignment db pid (Some uid)
          = Inl (HTTPException 400 (Not_assigned_to_project (full_name usr) (project_name prj))))
   \<and> (query_user db uid \<noteq> None \<and> query_project db pid \<noteq> None \<longrightarrow>
        (validate_task_assignment db pid (Some uid) = Inr ()
           \<longleftrightarrow> query_assignment db pid uid \<noteq> None))"
  by (auto simp: validate_task_assignment_def split: option.splits)

theorem validate_task_assignment_kinds_witness:
  "validate_task_assignment yard (Some 2) None = Inr ()
   \<and> validate_task_assignment yard (Some 2) (Some 9)
       = Inl (HTTPException 404 (User_with_ID_not_found 9))
   \<and> validate_task_assignment yard (Some 7) (Some 3)
       = Inl (HTTPException 404 (Project_with_ID_not_found (Some 7)))
   \<and> validate_task_assignment yard (Some 2) (Some 3)
       = Inl (HTTPException 400 (Not_assigned_to_project ''Carol'' ''Engine overhaul''))
   \<and> validate_task_assignment yard (Some 1) (Some 3) = Inr ()"
proof -
  have u9: "query_user yard 9 = None"
    by (simp add: query_defs yard_defs)
  have u3: "query_user yard 3 = Some carol"
    by (simp add: query_defs yard_defs)
  have p7: "query_project yard (Some 7) = None"
    by (simp add: query_defs yard_defs)
  have p2: "query_project yard (Some 2) = Some engine_overhaul"
    by (simp add: query_defs yard_defs)
  have p1: "query_project yard (Some 1) \<noteq> None"
    by (simp add: query_defs yard_defs)
  have a23: "query_assignment yard (Some 2) 3 = None"
    by (simp add: query_defs yard_defs)
  have a13: "query_assignment yard (Some 1) 3 \<noteq> None"
    by (simp add: query_defs yard_defs)
  show ?thesis
    using validate_task_assignment_kinds [of yard "Some 2" 9]
      validate_task_assignment_kinds [of yard "Some 7" 3 carol]
      validate_task_assignment_kinds [of yard "Some 2" 3 carol engine_overhaul]
      validate_task_assignment_kinds [of yard "Some 1" 3]
      u9 u3 p7 p2 p1 a23 a13
    by (simp add: carol_def engine_overhaul_def)
qed

section \<open>Task list visibility\<close>

text \<open>
  Claim C8, as the code has it. For a principal whose role is engineer or technician,
  take the task list without project filter, from offset 0 and with a limit that the
  matching rows fit in. When every task assigned to the principal has its priority,
  status and is_maintenance set, the list returns exactly the tasks whose
  \<open>assigned_to\<close> is the principal's id, in table order: no unassigned task, no task
  of another user, and every task of the principal. When one of those tasks lacks one of
  the three columns, the list raises the validation error and returns nothing.
\<close>

theorem get_tasks_assigned_only:
  assumes "role u = Some ''engineer'' \<or> role u = Some ''technician''"
    and "length (filter (\<lambda>t. assigned_to t = Some (user_id u)) (tasks db)) \<le> limit"
  shows "(list_all task_schema_ok (filter (\<lambda>t. assigned_to t = Some (user_id u)) (tasks db)) \<longrightarrow>
            (\<exists>rs. get_tasks None 0 limit db u = Inr rs
               \<and> map resp_task rs = filter (\<lambda>t. assigned_to t = Some (user_id u)) (tasks db)
               \<and> resp_task ` set rs = {t \<in> set (tasks db). assigned_to t = Some (user_id u)}))
         \<and> (\<not> list_all task_schema_ok
                 (filter (\<lambda>t. assigned_to t = Some (user_id u)) (tasks db)) \<longrightarrow>
            get_tasks None 0 limit db u = Inl ValidationError)"
proof -
  let ?mine = "filter (\<lambda>t. assigned_to t = Some (user_id u)) (tasks db)"
  have run: "get_tasks None 0 limit db u
               = (if list_all task_schema_ok ?mine then Inr (map (enrich_task db) ?mine)
                  else Inl ValidationError)"
    using assms by (auto simp: get_tasks_def collect_tasks)
  have sets: "resp_task ` set (map (enrich_task db) ?mine)
                = {t \<in> set (tasks db). assigned_to t = Some (user_id u)}"
    by (simp add: image_image)
  show ?thesis
    unfolding run using sets by simp
qed

theorem get_tasks_assigned_only_witness:
  "\<exists>rs. get_tasks None 0 100 yard carol = Inr rs
     \<and> map resp_task rs = [weld_task]
     \<and> resp_task ` set rs = {weld_task}"
proof -
  have r: "role carol = Some ''engineer'' \<or> role carol = Some ''technician''"
    by (simp add: carol_def)
  have f: "filter (\<lambda>t. assigned_to t = Some (user_id carol)) (tasks yard) = [weld_task]"
    by (simp add: yard_defs)
  have l: "length (filter (\<lambda>t. assigned_to t = Some (user_id carol)) (tasks yard)) \<le> 100"
    unfolding f by simp
  have ok: "list_all task_schema_ok
              (filter (\<lambda>t. assigned_to t = Some (user_id carol)) (tasks yard))"
    unfolding f by (simp add: task_schema_ok_def weld_task_def)
  have s: "{t \<in> set (tasks yard). assigned_to t = Some (user_id carol)} = {weld_task}"
  proof -
    have "{t \<in> set (tasks yard). assigned_to t = Some (user_id carol)}
            = set (filter (\<lambda>t. assigned_to t = Some (user_id carol)) (tasks yard))"
      by simp
    then show ?thesis unfolding f by simp
  qed
  obtain rs where rs: "get_tasks None 0 100 yard carol = Inr rs"
    "map resp_task rs = filter (\<lambda>t. assigned_to t = Some (user_id carol)) (tasks yard)"
    "resp_task ` set rs = {t \<in> set (tasks yard). assigned_to t = Some (user_id carol)}"
    using get_tasks_assigned_only [OF r l] ok by blast
  show ?thesis
    using rs(1) rs(2) [unfolded f] rs(3) [unfolded s] by (intro exI [of _ rs] conjI)
qed

text \<open>
  Claim C8 as stated fails. An update with an explicit null status is committed for
  task 1, which is assigned to Carol; the task list of Carol, an engineer, then raises
  instead of returning her task.
\<close>

theorem get_tasks_null_status_raises:
  "role carol = Some ''engineer''
   \<and> update_task 1 clear_status yard alice = (yard_null_status, Inl ValidationError)
   \<and> filter (\<lambda>t. assigned_to t = Some (user_id carol)) (tasks yard_null_status)
       = [weld_task\<lparr>status := None\<rparr>]
   \<and> get_tasks None 0 100 yard_null_status carol = Inl ValidationError"
  by code_simp

section \<open>Dashboard statistics: unknown roles\<close>

text \<open>
  Claim C9. For a principal whose role is missing or is not one of admin,
  project_manager, engineer, technician, the stats endpoint of
  \<^verbatim>\<open>routers/dashboard.py\<close> raises (500 for a missing role, 403 naming the role
  otherwise) and returns no counts, whatever the store holds.
\<close>

theorem get_dashboard_stats_fail_closed:
  assumes "role u \<notin> {Some ''admin'', Some ''project_manager'',
                      Some ''engineer'', Some ''technician''}"
  shows "get_dashboard_stats db u
           = Inl (case role u of
                    None \<Rightarrow> HTTPException 500 User_role_not_set
                  | Some r \<Rightarrow> HTTPException 403 (Invalid_user_role r))
         \<and> (\<forall>counts. get_dashboard_stats db u \<noteq> Inr counts)"
  using assms by (auto simp: get_dashboard_stats_def Let_def split: option.splits)

theorem get_dashboard_stats_fail_closed_witness:
  "get_dashboard_stats yard \<lparr> user_id = 7, full_name = ''Gina'', role = Some ''intern'' \<rparr>
     = Inl (HTTPException 403 (Invalid_user_role ''intern''))
   \<and> get_dashboard_stats yard \<lparr> user_id = 8, full_name = ''Hal'', role = None \<rparr>
     = Inl (HTTPException 500 User_role_not_set)"
  using get_dashboard_stats_fail_closed
          [of "\<lparr> user_id = 7, full_name = ''Gina'', role = Some ''intern'' \<rparr>" yard]
        get_dashboard_stats_fail_closed
          [of "\<lparr> user_id = 8, full_name = ''Hal'', role = None \<rparr>" yard]
  by simp

section \<open>Blueprint soft delete\<close>

text \<open>
  Claim C10, as the code has it. Blueprint delete is a soft delete. For an admin or
  project manager and an existing blueprint the delete succeeds, keeps every row of the
  table (the keys are unchanged) and sets the blueprint's \<open>is_active\<close> to false.
  Afterwards the blueprint list, for every principal, project filter, offset and limit,
  returns no blueprint with that id whenever it returns, and read-one by that id still
  finds the row and never answers the 404 of a missing blueprint: it returns the
  blueprint, now inactive, when the row has a version, and raises the validation error
  when the version is null.
\<close>

theorem delete_blueprint_soft:
  assumes auth: "role u \<in> {Some ''admin'', Some ''project_manager''}"
    and row: "find (\<lambda>b. blueprint_id b = bid) (blueprints db) = Some b"
  shows "\<exists>db' files'.
           delete_blueprint bid db files u = Inr (db', files')
         \<and> map blueprint_id (blueprints db') = map blueprint_id (blueprints db)
         \<and> find (\<lambda>b. blueprint_id b = bid) (blueprints db') = Some (b\<lparr>is_active := Some False\<rparr>)
         \<and> (\<forall>rs. get_blueprints pid skip limit db' u' = Inr rs \<longrightarrow>
               (\<forall>r \<in> set rs. blueprint_id (resp_blueprint r) \<noteq> bid))
         \<and> get_blueprint bid db' u'
             = (if version b = None then Inl ValidationError
                else Inr (enrich_blueprint db' (b\<lparr>is_active := Some False\<rparr>)))
         \<and> get_blueprint bid db' u' \<noteq> Inl (HTTPException 404 Blueprint_not_found)"
proof -
  define b' where "b' = b\<lparr>is_active := Some False\<rparr>"
  define bs' where "bs' = map (\<lambda>x. if blueprint_id x = bid then b' else x) (blueprints db)"
  define db' where "db' = db\<lparr>blueprints := bs'\<rparr>"
  define files' where
    "files' = (if file_path b \<in> set files then filter (\<lambda>f. f \<noteq> file_path b) files else files)"
  have bid: "blueprint_id b = bid"
    using row by (auto dest: find_Some_iff [THEN iffD1])
  then have bid': "blueprint_id b' = bid"
    by (simp add: b'_def)
  have del: "delete_blueprint bid db files u = Inr (db', files')"
    using auth row by (auto simp: delete_blueprint_def Let_def db'_def bs'_def b'_def files'_def)
  have ids: "map blueprint_id (blueprints db') = map blueprint_id (blueprints db)"
    using bid' by (simp add: db'_def bs'_def comp_def cong: map_cong)
  have found: "find (\<lambda>b. blueprint_id b = bid) (blueprints db') = Some b'"
    using find_replace [of blueprint_id bid "blueprints db" b b'] row bid'
    by (simp add: db'_def bs'_def)
  have inactive: "is_active x \<noteq> Some True" if "x \<in> set (blueprints db')" "blueprint_id x = bid" for x
    using that by (auto simp: db'_def bs'_def b'_def split: if_splits)
  have listed: "\<forall>rs. get_blueprints pid skip limit db' u' = Inr rs \<longrightarrow>
                  (\<forall>r \<in> set rs. blueprint_id (resp_blueprint r) \<noteq> bid)"
  proof (intro allI impI ballI)
    fix rs r assume "get_blueprints pid skip limit db' u' = Inr rs" "r \<in> set rs"
    then obtain x where x: "r = enrich_blueprint db' x" "x \<in> set (blueprints db')" "is_active x = Some True"
      by (auto simp: get_blueprints_def Let_def collect_blueprints
               split: option.splits if_splits
               dest!: in_set_takeD in_set_dropD)
    then show "blueprint_id (resp_blueprint r) \<noteq> bid"
      using inactive [of x] by (auto simp: enrich_blueprint_def)
  qed
  have one: "get_blueprint bid db' u'
               = (if version b = None then Inl ValidationError else Inr (enrich_blueprint db' b'))"
    using found
    by (simp add: get_blueprint_def blueprint_response_of_def blueprint_schema_ok_def b'_def)
  then have found_it: "get_blueprint bid db' u' \<noteq> Inl (HTTPException 404 Blueprint_not_found)"
    by simp
  show ?thesis
    using del ids found listed one found_it unfolding b'_def by blast
qed

theorem delete_blueprint_soft_witness:
  "delete_blueprint 1 yard [''uploads/blueprints/1_hull.pdf''] bob
     = Inr (yard\<lparr>blueprints := [hull_plan\<lparr>is_active := Some False\<rparr>]\<rparr>, [])
   \<and> get_blueprints None 0 100
         (yard\<lparr>blueprints := [hull_plan\<lparr>is_active := Some False\<rparr>]\<rparr>) carol = Inr []
   \<and> get_blueprint 1 (yard\<lparr>blueprints := [hull_plan\<lparr>is_active := Some False\<rparr>]\<rparr>) carol
     = Inr \<lparr> resp_blueprint = hull_plan\<lparr>is_active := Some False\<rparr>,
             uploader_name = Some ''Carol'' \<rparr>"
proof -
  let ?files = "[''uploads/blueprints/1_hull.pdf'']"
  let ?after = "yard\<lparr>blueprints := [hull_plan\<lparr>is_active := Some False\<rparr>]\<rparr>"
  have auth: "role bob \<in> {Some ''admin'', Some ''project_manager''}"
    by (simp add: bob_def)
  have row: "find (\<lambda>b. blueprint_id b = 1) (blueprints yard) = Some hull_plan"
    by (simp add: yard_defs)
  have ver: "version hull_plan \<noteq> None"
    by (simp add: hull_plan_def)
  obtain db' files' where
    del: "delete_blueprint 1 yard ?files bob = Inr (db', files')" and
    one: "get_blueprint 1 db' carol
            = (if version hull_plan = None then Inl ValidationError
               else Inr (enrich_blueprint db' (hull_plan\<lparr>is_active := Some False\<rparr>)))"
    using delete_blueprint_soft [OF auth row, of ?files None 0 100 carol] by blast
  have run: "delete_blueprint 1 yard ?files bob = Inr (?after, [])"
    by (simp add: delete_blueprint_def yard_defs)
  have db': "db' = ?after"
    using del run by simp
  have empty: "get_blueprints None 0 100 ?after carol = Inr []"
    by (simp add: get_blueprints_def yard_defs)
  have name: "enrich_blueprint ?after (hull_plan\<lparr>is_active := Some False\<rparr>)
                = \<lparr> resp_blueprint = hull_plan\<lparr>is_active := Some False\<rparr>,
                    uploader_name = Some ''Carol'' \<rparr>"
    by (simp add: enrich_blueprint_def query_defs yard_defs)
  show ?thesis
    using run empty one ver name unfolding db' by simp
qed

text \<open>
  Claim C10 as stated fails. An update with an explicit null version is committed for
  blueprint 1; the project manager then deletes the blueprint; read-one by its id does
  not return the deleted blueprint but raises.
\<close>

theorem deleted_blueprint_read_raises:
  "update_blueprint 1 drop_version yard carol = (yard_unversioned, Inl ValidationError)
   \<and> delete_blueprint 1 yard_unversioned [''uploads/blueprints/1_hull.pdf''] bob
       = Inr (yard\<lparr>blueprints := [hull_plan\<lparr>version := None, is_active := Some False\<rparr>]\<rparr>, [])
   \<and> get_blueprint 1
         (yard\<lparr>blueprints := [hull_plan\<lparr>version := None, is_active := Some False\<rparr>]\<rparr>) carol
       = Inl ValidationError"
  by code_simp

section \<open>Task update: validation against the final project\<close>

lemma check_assignment_change_final:
  "tu_assigned_to upd \<noteq> None \<or> tu_project_id upd \<noteq> None \<Longrightarrow>
   check_assignment_change db t upd
     = validate_task_assignment db (final_project_id t upd) (final_assigned_to t upd)"
  by (auto simp: check_assignment_change_def final_assigned_to_def validate_task_assignment_def)

lemma update_task_unfold:
  assumes "query_task db tid = Some t"
    and "tu_assigned_to upd \<noteq> None \<or> tu_project_id upd \<noteq> None"
    and "check_project_move db t upd u = Inr ()"
  shows "update_task tid upd db u =
           (case validate_task_assignment db (final_project_id t upd) (final_assigned_to t upd) of
              Inl e \<Rightarrow> (db, Inl e)
            | Inr _ \<Rightarrow>
                (case apply_task_update upd t of
                   Inl e \<Rightarrow> (db, Inl e)
                 | Inr t' \<Rightarrow> (store_task t' db, task_response_of (store_task t' db) t')))"
  using assms(1,3) check_assignment_change_final [OF assms(2), of db t]
  by (auto simp: update_task_def Let_def split: sum.splits)

lemma move_keeps_assignee_rejected:
  assumes task: "query_task db tid = Some t"
    and move: "check_project_move db t upd u = Inr ()"
    and upd: "tu_project_id upd = Some (Some b)" "tu_assigned_to upd = None"
    and cur: "assigned_to t = Some u1" "query_user db u1 = Some usr"
    and prj: "query_project db (Some b) = Some prj"
    and non: "query_assignment db (Some b) u1 = None"
  shows "update_task tid upd db u
           = (db, Inl (HTTPException 400
                         (Not_assigned_to_project (full_name usr) (project_name prj))))"
proof -
  have "validate_task_assignment db (final_project_id t upd) (final_assigned_to t upd)
          = Inl (HTTPException 400 (Not_assigned_to_project (full_name usr) (project_name prj)))"
    using upd cur prj non
    by (simp add: validate_task_assignment_def final_project_id_def final_assigned_to_def)
  then show ?thesis
    using update_task_unfold [OF task _ move] upd by simp
qed

lemma move_and_reassign_accepted:
  assumes task: "query_task db tid = Some t"
    and move: "check_project_move db t upd u = Inr ()"
    and upd: "tu_project_id upd = Some (Some b)" "tu_assigned_to upd = Some (Some u2)"
             "tu_task_name upd \<noteq> Some None"
    and new: "query_user db u2 \<noteq> None" "query_assignment db (Some b) u2 \<noteq> None"
  shows "\<exists>t'. update_task tid upd db u
                 = (store_task t' db,
                    if task_schema_ok t' then Inr (enrich_task (store_task t' db) t')
                    else Inl ValidationError)
           \<and> task_project_id t' = b
           \<and> assigned_to t' = Some u2
           \<and> query_task (store_task t' db) tid = Some t'"
proof -
  have prj: "query_project db (Some b) \<noteq> None"
    using move upd(1) by (auto simp: check_project_move_def split: option.splits)
  have ok: "validate_task_assignment db (final_project_id t upd) (final_assigned_to t upd) = Inr ()"
    using upd new prj
    by (auto simp: validate_task_assignment_def final_project_id_def final_assigned_to_def
             split: option.splits)
  obtain t' where t': "apply_task_update upd t = Inr t'"
    "task_project_id t' = b" "assigned_to t' = Some u2"
    using upd by (auto simp: apply_task_update_def)
  have "update_task tid upd db u
          = (store_task t' db, task_response_of (store_task t' db) t')"
    using update_task_unfold [OF task _ move] upd ok t'(1) by simp
  moreover have "query_task (store_task t' db) tid = Some t'"
    using query_task_store [OF task] apply_task_update_id [OF t'(1)] query_task_id [OF task]
    by simp
  ultimately show ?thesis
    using t'(2,3) by (auto simp: task_response_of_def)
qed

text \<open>
  Claim C6, as the code has it. Take a task update of an existing task whose change set
  contains \<open>assigned_to\<close> or \<open>project_id\<close> and that passes the checks on the
  project change (the new project exists, else 404; a project manager created it and the
  task's current project, else 403). Then the update is decided by assignment validation
  against the final project id (the new one when \<open>project_id\<close> is in the change set,
  else the task's current one) and the final assignee (likewise): a validation error is
  the update's error and nothing is stored; otherwise the changed row is committed,
  unless the commit refuses a null \<open>project_id\<close> or \<open>task_name\<close>, and the
  response is built from the stored row. So a move to project \<open>b\<close> that keeps an
  assignee, an existing user, who is not on \<open>b\<close>'s team fails with the 400
  not-a-team-member error, and a move that also reassigns to an existing user on
  \<open>b\<close>'s team, with no null \<open>task_name\<close> in the change set, stores the task
  with the new project and assignee; the call returns the task when the stored row has
  priority, status and is_maintenance set, and raises the validation error after the
  commit otherwise.
\<close>

theorem update_task_validates_final:
  assumes "query_task db tid = Some t"
    and "tu_assigned_to upd \<noteq> None \<or> tu_project_id upd \<noteq> None"
    and "check_project_move db t upd u = Inr ()"
  shows "update_task tid upd db u =
           (case validate_task_assignment db (final_project_id t upd) (final_assigned_to t upd) of
              Inl e \<Rightarrow> (db, Inl e)
            | Inr _ \<Rightarrow>
                (case apply_task_update upd t of
                   Inl e \<Rightarrow> (db, Inl e)
                 | Inr t' \<Rightarrow> (store_task t' db, task_response_of (store_task t' db) t')))
         \<and> final_project_id t upd
             = (case tu_project_id upd of Some new \<Rightarrow> new | None \<Rightarrow> Some (task_project_id t))
         \<and> final_assigned_to t upd
             = (case tu_assigned_to upd of Some new \<Rightarrow> new | None \<Rightarrow> assigned_to t)
         \<and> (tu_project_id upd = Some (Some b) \<and> tu_assigned_to upd = None
              \<and> assigned_to t = Some u1 \<and> query_user db u1 = Some usr
              \<and> query_project db (Some b) = Some prj
              \<and> query_assignment db (Some b) u1 = None
             \<longrightarrow> update_task tid upd db u
                   = (db, Inl (HTTPException 400
                                 (Not_assigned_to_project (full_name usr) (project_name prj)))))
         \<and> (tu_project_id upd = Some (Some b) \<and> tu_assigned_to upd = Some (Some u2)
              \<and> tu_task_name upd \<noteq> Some None
              \<and> query_user db u2 \<noteq> None \<and> query_assignment db (Some b) u2 \<noteq> None
             \<longrightarrow> (\<exists>t'. update_task tid upd db u
                           = (store_task t' db,
                              if task_schema_ok t' then Inr (enrich_task (store_task t' db) t')
                              else Inl ValidationError)
                     \<and> task_project_id t' = b
                     \<and> assigned_to t' = Some u2
                     \<and> query_task (store_task t' db) tid = Some t'))"
proof (intro conjI impI)
  show "update_task tid upd db u =
           (case validate_task_assignment db (final_project_id t upd) (final_assigned_to t upd) of
              Inl e \<Rightarrow> (db, Inl e)
            | Inr _ \<Rightarrow>
                (case apply_task_update upd t of
                   Inl e \<Rightarrow> (db, Inl e)
                 | Inr t' \<Rightarrow> (store_task t' db, task_response_of (store_task t' db) t')))"
    by (rule update_task_unfold [OF assms])
next
  show "final_project_id t upd
          = (case tu_project_id upd of Some new \<Rightarrow> new | None \<Rightarrow> Some (task_project_id t))"
    by (simp add: final_project_id_def)
next
  show "final_assigned_to t upd
          = (case tu_assigned_to upd of Some new \<Rightarrow> new | None \<Rightarrow> assigned_to t)"
    by (simp add: final_assigned_to_def)
next
  assume "tu_project_id upd = Some (Some b) \<and> tu_assigned_to upd = None
          \<and> assigned_to t = Some u1 \<and> query_user db u1 = Some usr
          \<and> query_project db (Some b) = Some prj
          \<and> query_assignment db (Some b) u1 = None"
  then show "update_task tid upd db u
               = (db, Inl (HTTPException 400
                             (Not_assigned_to_project (full_name usr) (project_name prj))))"
    using move_keeps_assignee_rejected [OF assms(1,3)] by blast
next
  assume "tu_project_id upd = Some (Some b) \<and> tu_assigned_to upd = Some (Some u2)
          \<and> tu_task_name upd \<noteq> Some None
          \<and> query_user db u2 \<noteq> None \<and> query_assignment db (Some b) u2 \<noteq> None"
  then show "\<exists>t'. update_task tid upd db u
                    = (store_task t' db,
                       if task_schema_ok t' then Inr (enrich_task (store_task t' db) t')
                       else Inl ValidationError)
               \<and> task_project_id t' = b
               \<and> assigned_to t' = Some u2
               \<and> query_task (store_task t' db) tid = Some t'"
    using move_and_reassign_accepted [OF assms(1,3)] by blast
qed

theorem update_task_validates_final_witness:
  "update_task 1 move_to_engine yard bob
     = (yard, Inl (HTTPException 400 (Not_assigned_to_project ''Carol'' ''Engine overhaul'')))
   \<and> (\<exists>t'. update_task 1 move_and_reassign yard bob
               = (store_task t' yard,
                  if task_schema_ok t' then Inr (enrich_task (store_task t' yard) t')
                  else Inl ValidationError)
         \<and> task_project_id t' = 2
         \<and> assigned_to t' = Some 4
         \<and> query_task (store_task t' yard) 1 = Some t')"
proof -
  have task: "query_task yard 1 = Some weld_task"
    by (simp add: query_defs yard_defs)
  have chg1: "tu_assigned_to move_to_engine \<noteq> None \<or> tu_project_id move_to_engine \<noteq> None"
    by (simp add: move_to_engine_def)
  have chg2: "tu_assigned_to move_and_reassign \<noteq> None \<or> tu_project_id move_and_reassign \<noteq> None"
    by (simp add: move_and_reassign_def)
  have move1: "check_project_move yard weld_task move_to_engine bob = Inr ()"
    by code_simp
  have move2: "check_project_move yard weld_task move_and_reassign bob = Inr ()"
    by code_simp
  have keep: "tu_project_id move_to_engine = Some (Some 2) \<and> tu_assigned_to move_to_engine = None
      \<and> assigned_to weld_task = Some 3 \<and> query_user yard 3 = Some carol
      \<and> query_project yard (Some 2) = Some engine_overhaul
      \<and> query_assignment yard (Some 2) 3 = None"
    by (simp add: move_to_engine_def no_change_def query_defs yard_defs)
  have swap: "tu_project_id move_and_reassign = Some (Some 2)
      \<and> tu_assigned_to move_and_reassign = Some (Some 4)
      \<and> tu_task_name move_and_reassign \<noteq> Some None
      \<and> query_user yard 4 \<noteq> None \<and> query_assignment yard (Some 2) 4 \<noteq> None"
    by (simp add: move_and_reassign_def no_change_def query_defs yard_defs)
  have "update_task 1 move_to_engine yard bob
          = (yard, Inl (HTTPException 400
                   (Not_assigned_to_project (full_name carol) (project_name engine_overhaul))))"
    using update_task_validates_final [OF task chg1 move1, of 2 3 carol engine_overhaul] keep
    by blast
  then have rejected: "update_task 1 move_to_engine yard bob
          = (yard, Inl (HTTPException 400 (Not_assigned_to_project ''Carol'' ''Engine overhaul'')))"
    by (simp add: carol_def engine_overhaul_def)
  have accepted: "\<exists>t'. update_task 1 move_and_reassign yard bob
               = (store_task t' yard,
                  if task_schema_ok t' then Inr (enrich_task (store_task t' yard) t')
                  else Inl ValidationError)
         \<and> task_project_id t' = 2
         \<and> assigned_to t' = Some 4
         \<and> query_task (store_task t' yard) 1 = Some t'"
    using update_task_validates_final [OF task chg2 move2, of 2 _ _ _ 4] swap
    by blast
  show ?thesis
    using rejected accepted by (rule conjI)
qed

text \<open>
  Claim C6 as stated fails. Carol, the assignee of task 1, is not on the team of project
  2. Frank, a project manager who did not create project 2, moves task 1 there: the
  answer is the 403 of the ownership check, not the not-a-team-member error, and it stays
  403 when he also reassigns the task to Dave, who is on the team.
\<close>

theorem move_by_foreign_manager_forbidden:
  "role frank = Some ''project_manager''
   \<and> query_task yard 1 = Some weld_task \<and> assigned_to weld_task = Some 3
   \<and> query_project yard (Some 2) = Some engine_overhaul
   \<and> query_assignment yard (Some 2) 3 = None
   \<and> update_task 1 move_to_engine yard frank
       = (yard, Inl (HTTPException 403 Move_only_to_own_projects))
   \<and> update_task 1 move_and_reassign yard frank
       = (yard, Inl (HTTPException 403 Move_only_to_own_projects))"
  by code_simp

section \<open>The assignment invariant under writes\<close>

lemma invariant_iff:
  "assignment_invariant db \<longleftrightarrow>
     (\<forall>t \<in> set (tasks db). \<forall>uid. assigned_to t = Some uid \<longrightarrow>
        (\<exists>a \<in> set (project_assignments db).
           pa_project_id a = task_project_id t \<and> pa_user_id a = uid))"
  by (auto simp: assignment_invariant_def list_all_iff query_assignment_def find_None_iff
           split: option.splits)

lemma validate_ok_member:
  "validate_task_assignment db (Some p) (Some uid) = Inr () \<Longrightarrow>
   \<exists>a \<in> set (project_assignments db). pa_project_id a = p \<and> pa_user_id a = uid"
proof -
  assume "validate_task_assignment db (Some p) (Some uid) = Inr ()"
  then have "query_assignment db (Some p) uid \<noteq> None"
    by (auto simp: validate_task_assignment_def split: option.splits)
  then show ?thesis
    unfolding is_member_iff by simp
qed

lemma create_task_invariant:
  assumes "assignment_invariant db"
  shows "assignment_invariant (fst (create_task payload db u))"
proof (cases "validate_task_assignment db (Some (tc_project_id payload)) (tc_assigned_to payload)")
  case (Inl e)
  then show ?thesis using assms by (simp add: create_task_def)
next
  case (Inr ok)
  then have ok: "validate_task_assignment db (Some (tc_project_id payload)) (tc_assigned_to payload)
                   = Inr ()"
    by simp
  define db' where "db' = fst (create_task payload db u)"
  have db': "project_assignments db' = project_assignments db"
    "\<exists>t. tasks db' = tasks db @ [t] \<and> task_project_id t = tc_project_id payload
         \<and> assigned_to t = tc_assigned_to payload"
    using ok by (auto simp: db'_def create_task_def Let_def)
  show ?thesis
    using assms db' validate_ok_member [of db "tc_project_id payload"] ok
    unfolding invariant_iff db'_def [symmetric] by auto
qed

lemma update_task_store:
  "fst (update_task tid upd db u) = db
   \<or> (\<exists>t t'. query_task db tid = Some t
          \<and> check_assignment_change db t upd = Inr ()
          \<and> apply_task_update upd t = Inr t'
          \<and> fst (update_task tid upd db u) = store_task t' db)"
  by (auto simp: update_task_def Let_def split: option.splits sum.splits)

lemma update_task_invariant:
  assumes inv: "assignment_invariant db"
  shows "assignment_invariant (fst (update_task tid upd db u))"
proof (cases "fst (update_task tid upd db u) = db")
  case True
  then show ?thesis using inv by simp
next
  case False
  then obtain t t' where t: "query_task db tid = Some t"
    and chk: "check_assignment_change db t upd = Inr ()"
    and t': "apply_task_update upd t = Inr t'"
    and db': "fst (update_task tid upd db u) = store_task t' db"
    using update_task_store [of tid upd db u] by blast
  have mem: "t \<in> set (tasks db)"
    using t by (auto simp: query_task_def find_Some_iff)
  have new: "\<exists>a \<in> set (project_assignments db).
               pa_project_id a = task_project_id t' \<and> pa_user_id a = uid"
    if "assigned_to t' = Some uid" for uid
  proof (cases "tu_assigned_to upd \<noteq> None \<or> tu_project_id upd \<noteq> None")
    case True
    have nn: "tu_assigned_to upd \<noteq> Some None"
      using that t' by (auto simp: apply_task_update_def split: if_splits)
    have fa: "final_assigned_to t upd = Some uid"
      using that t' by (auto simp: apply_task_update_def final_assigned_to_def split: if_splits option.splits)
    have fp: "final_project_id t upd = Some (task_project_id t')"
      using t' by (auto simp: apply_task_update_def final_project_id_def split: if_splits option.splits)
    have "validate_task_assignment db (Some (task_project_id t')) (Some uid) = Inr ()"
      using chk True nn fa fp by (simp add: check_assignment_change_def)
    then show ?thesis by (rule validate_ok_member)
  next
    case False
    then have "task_project_id t' = task_project_id t" "assigned_to t' = assigned_to t"
      using t' by (auto simp: apply_task_update_def split: if_splits)
    then show ?thesis
      using inv mem that unfolding invariant_iff by auto
  qed
  show ?thesis
    using inv new unfolding invariant_iff db' store_task_def by auto
qed

lemma update_project_store:
  "fst (update_project pid upd db u) = db
   \<or> (tasks (fst (update_project pid upd db u)) = tasks db
       \<and> project_assignments (fst (update_project pid upd db u))
           = (case pu_assigned_user_ids upd of
                None \<Rightarrow> project_assignments db
              | Some ids \<Rightarrow> replace_team pid ids (project_assignments db)))"
  by (auto simp: update_project_def Let_def split: option.splits sum.splits)

lemma replace_team_invariant:
  assumes inv: "assignment_invariant db"
    and ts: "tasks db' = tasks db"
    and as: "project_assignments db' = replace_team pid ids (project_assignments db)"
    and k: "\<forall>t \<in> set (tasks db). task_project_id t = pid \<longrightarrow>
               (\<forall>a. assigned_to t = Some a \<longrightarrow> a \<in> set ids)"
  shows "assignment_invariant db'"
  unfolding invariant_iff ts as
proof (intro ballI allI impI)
  fix t uid assume t: "t \<in> set (tasks db)" "assigned_to t = Some uid"
  show "\<exists>a \<in> set (replace_team pid ids (project_assignments db)).
          pa_project_id a = task_project_id t \<and> pa_user_id a = uid"
  proof (cases "task_project_id t = pid")
    case True
    then have "uid \<in> set ids" using k t by blast
    then have "\<lparr> pa_project_id = pid, pa_user_id = uid \<rparr>
                 \<in> set (replace_team pid ids (project_assignments db))"
      by (simp add: replace_team_def)
    then show ?thesis using True by force
  next
    case False
    obtain a where a: "a \<in> set (project_assignments db)"
      "pa_project_id a = task_project_id t" "pa_user_id a = uid"
      using inv t unfolding invariant_iff by blast
    then have "a \<in> set (replace_team pid ids (project_assignments db))"
      using False by (simp add: replace_team_def)
    then show ?thesis using a by blast
  qed
qed

lemma update_project_invariant:
  assumes inv: "assignment_invariant db"
    and keep: "keeps_assignees db (Project_update pid upd u)"
  shows "assignment_invariant (fst (update_project pid upd db u))"
proof (cases "fst (update_project pid upd db u) = db")
  case True
  then show ?thesis using inv by simp
next
  case False
  define db' where "db' = fst (update_project pid upd db u)"
  have ts: "tasks db' = tasks db"
    and as: "project_assignments db'
               = (case pu_assigned_user_ids upd of
                    None \<Rightarrow> project_assignments db
                  | Some ids \<Rightarrow> replace_team pid ids (project_assignments db))"
    using False update_project_store [of pid upd db u] unfolding db'_def by blast+
  show ?thesis
  proof (cases "pu_assigned_user_ids upd")
    case None
    then show ?thesis
      using inv ts as unfolding invariant_iff db'_def [symmetric] by simp
  next
    case (Some ids)
    have k: "\<forall>t \<in> set (tasks db). task_project_id t = pid \<longrightarrow>
               (\<forall>a. assigned_to t = Some a \<longrightarrow> a \<in> set ids)"
      using keep Some by (auto simp: list_all_iff split: option.splits)
    show ?thesis
      unfolding db'_def [symmetric]
      using replace_team_invariant [OF inv ts _ k] as Some by simp
  qed
qed

lemma perform_invariant:
  "assignment_invariant db \<Longrightarrow> keeps_assignees db x \<Longrightarrow> assignment_invariant (perform db x)"
  by (cases x)
     (auto intro: create_task_invariant update_task_invariant update_project_invariant)

text \<open>
  Claim C1, as the code has it. Starting from a store that satisfies the assignment
  invariant, every sequence of task creates, task updates and project updates leaves
  the invariant in place, provided each team replacement in the sequence keeps on the
  new team every user who is at that moment the assignee of a task of the project.
  Task create and task update validate the assignee against the team at the time of the
  write; project update validates nothing, so the proviso is needed (see the
  counterexample below).
\<close>

theorem assignment_invariant_preserved:
  "assignment_invariant db \<Longrightarrow> teams_keep_assignees db ops \<Longrightarrow>
   assignment_invariant (run db ops)"
  unfolding run_def
  by (induction ops arbitrary: db) (auto intro: perform_invariant)

theorem assignment_invariant_preserved_witness:
  "assignment_invariant yard \<and> teams_keep_assignees yard refit_ops
   \<and> assignment_invariant (run yard refit_ops)"
proof -
  have inv: "assignment_invariant yard"
    by code_simp
  have keep: "teams_keep_assignees yard refit_ops"
    by code_simp
  show ?thesis
    using inv keep assignment_invariant_preserved [OF inv keep] by simp
qed

text \<open>
  Claim C1 as stated fails. The store \<open>yard\<close> satisfies the invariant; the project
  manager replaces the team of project 1 by the empty team; the update is accepted, task
  1 of project 1 is still assigned to user 3, and user 3 is no longer on the team.
\<close>

theorem team_replacement_breaks_invariant:
  "assignment_invariant yard
   \<and> update_project 1 empty_team yard bob
       = (yard\<lparr>project_assignments := [\<lparr> pa_project_id = 2, pa_user_id = 4 \<rparr>]\<rparr>,
          Inr \<lparr> resp_project = hull_refit, assigned_users = [],
                owner_name = None, team_members = [] \<rparr>)
   \<and> query_task (run yard [Project_update 1 empty_team bob]) 1 = Some weld_task
   \<and> assigned_to weld_task = Some 3
   \<and> query_assignment (run yard [Project_update 1 empty_team bob]) (Some 1) 3 = None
   \<and> \<not> assignment_invariant (run yard [Project_update 1 empty_team bob])"
  by code_simp

section \<open>Task creation and roles\<close>

lemma create_task_never_forbidden:
  "snd (create_task payload db u) \<noteq> Inl (HTTPException 403 d)"
  by (auto simp: create_task_def validate_task_assignment_def task_response_of_def Let_def
           split: option.splits sum.splits)

text \<open>
  Claim C4, as the code has it. Task creation is not gated by role. For a principal
  whose role is engineer or technician, as for any other, creation never answers 403
  and its outcome does not depend on the principal: it succeeds, appending the task with
  the payload's project and assignee, when assignment validation of the payload passes,
  and fails with the validation's error, storing nothing, otherwise.
\<close>

theorem create_task_not_role_gated:
  assumes "role u = Some ''engineer'' \<or> role u = Some ''technician''"
  shows "(\<forall>d. snd (create_task payload db u) \<noteq> Inl (HTTPException 403 d))
         \<and> create_task payload db u = create_task payload db u'
         \<and> (validate_task_assignment db (Some (tc_project_id payload)) (tc_assigned_to payload)
               = Inr ()
             \<longrightarrow> (\<exists>db' r. create_task payload db u = (db', Inr r)
                     \<and> tasks db' = tasks db @ [resp_task r]
                     \<and> task_project_id (resp_task r) = tc_project_id payload
                     \<and> assigned_to (resp_task r) = tc_assigned_to payload))
         \<and> (\<forall>e. validate_task_assignment db (Some (tc_project_id payload)) (tc_assigned_to payload)
               = Inl e
             \<longrightarrow> create_task payload db u = (db, Inl e))"
  using create_task_never_forbidden [of payload db u]
  by (auto simp: create_task_def task_response_of_def task_schema_ok_def Let_def
           split: sum.splits)

theorem create_task_not_role_gated_witness:
  "\<exists>db' r. create_task grind_task yard carol = (db', Inr r)
     \<and> tasks db' = tasks yard @ [resp_task r]
     \<and> task_project_id (resp_task r) = tc_project_id grind_task
     \<and> assigned_to (resp_task r) = tc_assigned_to grind_task"
proof -
  have r: "role carol = Some ''engineer'' \<or> role carol = Some ''technician''"
    by (simp add: carol_def)
  have v: "validate_task_assignment yard (Some (tc_project_id grind_task))
             (tc_assigned_to grind_task) = Inr ()"
    by code_simp
  show ?thesis
    using create_task_not_role_gated [OF r, of grind_task yard] v by blast
qed

text \<open>
  Claim C4 as stated fails: Carol, an engineer, creates a task on project 1 and the
  task is stored.
\<close>

theorem engineer_creates_task:
  "role carol = Some ''engineer''
   \<and> create_task grind_task yard carol
       = (yard\<lparr>tasks := [weld_task, paint_task, pump_task,
                \<lparr> task_id = 4, task_project_id = 1, task_name = ''Grind welds'',
                  assigned_to = Some 3, priority = Some Medium, status = Some Pending,
                  is_maintenance = Some False, completion_date = None \<rparr>]\<rparr>,
          Inr \<lparr> resp_task =
                  \<lparr> task_id = 4, task_project_id = 1, task_name = ''Grind welds'',
                    assigned_to = Some 3, priority = Some Medium, status = Some Pending,
                    is_maintenance = Some False, completion_date = None \<rparr>,
                resp_project_name = ''Hull refit'', assigned_to_name = ''Carol'' \<rparr>)"
  by code_simp

section \<open>Project update and delete: no authorization\<close>

lemma update_project_never_forbidden:
  "snd (update_project pid upd db u) \<noteq> Inl (HTTPException 403 d)"
  by (auto simp: update_project_def apply_project_update_def write_response_of_def Let_def
           split: option.splits sum.splits if_splits)

lemma delete_project_never_forbidden:
  "delete_project pid db u \<noteq> Inl (HTTPException 403 d)"
  by (auto simp: delete_project_def split: option.splits)

lemma project_writes_ignore_principal:
  "update_project pid upd db u = update_project pid upd db u'
   \<and> delete_project pid db u = delete_project pid db u'"
  by (simp add: update_project_def delete_project_def)

text \<open>
  Claim C2 against the code. Project 1 was created by user 2. Carol, an engineer with
  id 3, renames it; Frank, a project manager who did not create it, gets the same
  answer; Dave, a technician, deletes it together with its tasks, blueprint and team.
  None of them is refused, although \<open>create_project\<close> refuses Carol with 403.
\<close>

theorem project_writes_unguarded:
  "role carol = Some ''engineer'' \<and> role dave = Some ''technician''
   \<and> role frank = Some ''project_manager'' \<and> user_id frank = 6
   \<and> query_project yard (Some 1) = Some hull_refit \<and> created_by hull_refit = Some 2
   \<and> update_project 1 rename_project yard carol
       = (yard\<lparr>projects := [hull_refit\<lparr>project_name := ''Scrapped''\<rparr>, engine_overhaul]\<rparr>,
          Inr \<lparr> resp_project = hull_refit\<lparr>project_name := ''Scrapped''\<rparr>,
                assigned_users = [3], owner_name = None, team_members = [] \<rparr>)
   \<and> update_project 1 rename_project yard frank
       = update_project 1 rename_project yard carol
   \<and> delete_project 1 yard dave
       = Inr (yard\<lparr>projects := [engine_overhaul],
                   tasks := [pump_task],
                   blueprints := [],
                   project_assignments := [\<lparr> pa_project_id = 2, pa_user_id = 4 \<rparr>]\<rparr>)
   \<and> create_project new_project yard carol
       = (yard, Inl (HTTPException 403 Only_admins_and_pms_create_projects))"
  by code_simp

section \<open>Task update and complete by engineers and technicians\<close>

lemma mark_task_done_assignee_only:
  assumes "role u = Some ''engineer'' \<or> role u = Some ''technician''"
    and "query_task db tid = Some t"
  shows "assigned_to t \<noteq> Some (user_id u) \<longrightarrow>
           mark_task_done tid today db u = (db, Inl (HTTPException 403 Complete_only_assigned))"
    and "assigned_to t = Some (user_id u) \<longrightarrow>
           (\<exists>t'. fst (mark_task_done tid today db u) = store_task t' db
              \<and> task_id t' = task_id t
              \<and> status t' = Some Completed
              \<and> completion_date t' = Some today
              \<and> snd (mark_task_done tid today db u) \<noteq> Inl (HTTPException 403 d))"
  using assms by (auto simp: mark_task_done_def task_response_of_def Let_def)

lemma update_task_engineer_never_forbidden:
  assumes "role u = Some ''engineer'' \<or> role u = Some ''technician''"
  shows "snd (update_task tid upd db u) \<noteq> Inl (HTTPException 403 d)"
  using assms
  by (auto simp: update_task_def check_project_move_def check_assignment_change_def
                 validate_task_assignment_def apply_task_update_def task_response_of_def Let_def
           split: option.splits sum.splits if_splits)

text \<open>
  Claim C3 against the code. Task 1 is assigned to user 3. Dave, a technician with id 4,
  is refused with 403 when he completes it through \<open>mark_task_done\<close>, as the claim
  says, but \<open>update_task\<close> lets him set the same task to completed: the update is
  committed and no 403 is raised.
\<close>

theorem technician_updates_foreign_task:
  "role dave = Some ''technician'' \<and> user_id dave = 4
   \<and> query_task yard 1 = Some weld_task \<and> assigned_to weld_task = Some 3
   \<and> mark_task_done 1 200 yard dave = (yard, Inl (HTTPException 403 Complete_only_assigned))
   \<and> update_task 1 mark_completed yard dave
       = (yard\<lparr>tasks := [weld_task\<lparr>status := Some Completed, completion_date := Some 200\<rparr>,
                           paint_task, pump_task]\<rparr>,
          Inr \<lparr> resp_task = weld_task\<lparr>status := Some Completed, completion_date := Some 200\<rparr>,
                resp_project_name = ''Hull refit'', assigned_to_name = ''Carol'' \<rparr>)"
  by code_simp

section \<open>Dashboard counts and list visibility\<close>

lemma get_tasks_rows:
  assumes "length (tasks db) \<le> limit" and "get_tasks None 0 limit db u = Inr rs"
  shows "map resp_task rs =
     (if role u = Some ''admin'' then tasks db
      else if role u = Some ''project_manager'' then
        filter (\<lambda>t. task_project_id t \<in> project_id ` {p \<in> set (projects db). created_by p = Some (user_id u)}) (tasks db)
      else filter (\<lambda>t. assigned_to t = Some (user_id u)) (tasks db))"
proof -
  have fits: "take limit (filter P (tasks db)) = filter P (tasks db)" for P
    using assms(1) le_trans [OF length_filter_le] by (intro take_all) blast
  have all: "take limit (tasks db) = tasks db"
    using assms(1) by simp
  show ?thesis
    using assms(2)
    by (auto simp: get_tasks_def Let_def collect_tasks fits all split: if_splits)
qed

lemma resp_project_enrich [simp]: "resp_project (enrich_project db p) = p"
  by (simp add: enrich_project_def)

lemma get_projects_length:
  assumes "length (projects db) \<le> limit" and "get_projects 0 limit db u = Inr ps"
  shows "length ps =
     (if role u = Some ''admin'' then length (projects db)
      else if role u = Some ''project_manager'' then
        length (filter (\<lambda>p. created_by p = Some (user_id u)) (projects db))
      else length (filter (\<lambda>p. project_id p \<in> set (map pa_project_id
                (filter (\<lambda>a. pa_user_id a = user_id u) (project_assignments db)))) (projects db)))"
proof -
  have fits: "take limit (filter P (projects db)) = filter P (projects db)" for P
    using assms(1) le_trans [OF length_filter_le] by (intro take_all) blast
  have all: "take limit (projects db) = projects db"
    using assms(1) by simp
  show ?thesis
    using assms(2)
    by (auto simp: get_projects_def Let_def collect_projects fits all split: if_splits)
qed


lemma on_team_iff:
  "on_team db u t \<longleftrightarrow>
     task_project_id t \<in> set (remdups (map pa_project_id
        (filter (\<lambda>a. pa_user_id a = user_id u) (project_assignments db))))"
  unfolding on_team_def is_member_iff by (auto simp: image_iff)

lemma stats_admin:
  assumes "role u = Some ''admin''"
  shows "\<exists>s. get_dashboard_stats db u = Inr s
           \<and> total_tasks s = length (filter is_open (tasks db))
           \<and> completed_tasks s = length (filter is_completed (tasks db))
           \<and> total_projects s = length (projects db)"
  using assms by (simp add: get_dashboard_stats_def Let_def)

lemma stats_pm:
  assumes "role u = Some ''project_manager''"
  shows "\<exists>s. get_dashboard_stats db u = Inr s
           \<and> total_tasks s = length (filter is_open
               (filter (\<lambda>t. task_project_id t \<in> project_id `
                    {p \<in> set (projects db). created_by p = Some (user_id u)}) (tasks db)))
           \<and> completed_tasks s = length (filter is_completed
               (filter (\<lambda>t. task_project_id t \<in> project_id `
                    {p \<in> set (projects db). created_by p = Some (user_id u)}) (tasks db)))
           \<and> total_projects s
               = length (filter (\<lambda>p. created_by p = Some (user_id u)) (projects db))"
proof -
  let ?own = "filter (\<lambda>p. created_by p = Some (user_id u)) (projects db)"
  show ?thesis
  proof (cases "?own = []")
    case True
    then have none: "{p \<in> set (projects db). created_by p = Some (user_id u)} = {}"
      by (auto simp: filter_empty_conv)
    show ?thesis
      using assms True unfolding none
      by (simp add: get_dashboard_stats_def Let_def)
  next
    case False
    then show ?thesis
      using assms by (simp add: get_dashboard_stats_def Let_def)
  qed
qed

lemma stats_engineer_unfold:
  assumes "role u = Some ''engineer'' \<or> role u = Some ''technician''"
  shows "get_dashboard_stats db u =
    (let ids = remdups (map pa_project_id
                 (filter (\<lambda>a. pa_user_id a = user_id u) (project_assignments db)))
     in Inr \<lparr> total_projects = length ids,
              total_tasks = (if ids \<noteq> [] then
                 length (filter (\<lambda>t. assigned_to t = Some (user_id u)
                                      \<and> task_project_id t \<in> set ids \<and> is_open t) (tasks db)) else 0),
              completed_tasks = (if ids \<noteq> [] then
                 length (filter (\<lambda>t. assigned_to t = Some (user_id u)
                                      \<and> task_project_id t \<in> set ids \<and> is_completed t) (tasks db)) else 0),
              total_inventory = length (inventory_items db),
              low_stock_items = length (filter is_low_stock (inventory_items db)) \<rparr>)"
  using assms by (auto simp: get_dashboard_stats_def Let_def)

lemma filter_on_team:
  "filter (\<lambda>t. on_team db u t \<and> P t) (filter (\<lambda>t. assigned_to t = Some (user_id u)) ts)
     = filter (\<lambda>t. assigned_to t = Some (user_id u)
                    \<and> task_project_id t \<in> set (remdups (map pa_project_id
                          (filter (\<lambda>a. pa_user_id a = user_id u) (project_assignments db))))
                    \<and> P t) ts"
  unfolding on_team_iff by (induction ts) auto

lemma no_team_no_tasks:
  assumes "remdups (map pa_project_id
             (filter (\<lambda>a. pa_user_id a = user_id u) (project_assignments db))) = []"
  shows "filter (\<lambda>t. on_team db u t \<and> P t) ts = []"
  unfolding on_team_iff assms by simp

lemma stats_engineer_tasks:
  assumes "role u = Some ''engineer'' \<or> role u = Some ''technician''"
  shows "\<exists>s. get_dashboard_stats db u = Inr s
           \<and> total_tasks s = length (filter (\<lambda>t. on_team db u t \<and> is_open t)
                                  (filter (\<lambda>t. assigned_to t = Some (user_id u)) (tasks db)))
           \<and> completed_tasks s = length (filter (\<lambda>t. on_team db u t \<and> is_completed t)
                                  (filter (\<lambda>t. assigned_to t = Some (user_id u)) (tasks db)))
           \<and> total_projects s = length (remdups (map pa_project_id
                 (filter (\<lambda>a. pa_user_id a = user_id u) (project_assignments db))))"
proof -
  let ?ids = "remdups (map pa_project_id
                 (filter (\<lambda>a. pa_user_id a = user_id u) (project_assignments db)))"
  show ?thesis
  proof (cases "?ids = []")
    case True
    show ?thesis
      unfolding stats_engineer_unfold [OF assms] no_team_no_tasks [OF True]
      using True by (simp add: Let_def)
  next
    case False
    show ?thesis
      unfolding stats_engineer_unfold [OF assms] filter_on_team
      using False by (simp add: Let_def)
  qed
qed

lemma length_filter_keys:
  assumes "distinct (map key ps)" "S \<subseteq> key ` set ps"
  shows "length (filter (\<lambda>p. key p \<in> S) ps) = card S"
proof -
  let ?fs = "filter (\<lambda>p. key p \<in> S) ps"
  have "distinct (map key ?fs)"
    using assms(1) by (rule distinct_map_filter)
  then have "card (set (map key ?fs)) = length (map key ?fs)"
    by (rule distinct_card)
  moreover have "set (map key ?fs) = S"
    using assms(2) by auto
  ultimately have "card S = length (map key ?fs)"
    by (simp only:)
  then show ?thesis by simp
qed

lemma engineer_project_rows:
  assumes keys: "distinct (map project_id (projects db))"
    and refs: "\<forall>a \<in> set (project_assignments db). pa_project_id a \<in> project_id ` set (projects db)"
  shows "length (filter (\<lambda>p. project_id p \<in> set (map pa_project_id
                (filter (\<lambda>a. pa_user_id a = user_id u) (project_assignments db)))) (projects db))
           = length (remdups (map pa_project_id
               (filter (\<lambda>a. pa_user_id a = user_id u) (project_assignments db))))"
proof -
  let ?ids = "map pa_project_id (filter (\<lambda>a. pa_user_id a = user_id u) (project_assignments db))"
  have "length (filter (\<lambda>p. project_id p \<in> set ?ids) (projects db)) = card (set ?ids)"
    using refs by (intro length_filter_keys [OF keys]) auto
  also have "\<dots> = length (remdups ?ids)"
    by (simp add: length_remdups_card_conv)
  finally show ?thesis .
qed

text \<open>
  Claim C7, as the code has it. Take limits that the task and project tables fit in, so
  that a list that returns is complete. For an admin and for a project manager, whenever
  the task list returns, the open and the completed count of the stats service are the
  numbers of open and of completed tasks of that list, and whenever the project list
  returns, the project count is its length. For an engineer or technician the task
  counts apply a narrower predicate than the list: whenever the task list returns, only
  those of the listed tasks (the tasks assigned to the principal) whose project has the
  principal on its team are counted; when every listed task is of that kind, the counts
  are those of the list. The project count of an engineer or technician is the length of
  the project list, whenever that list returns, when project keys are unique and every
  assignment row refers to an existing project.
\<close>

theorem dashboard_counts_vs_lists:
  assumes "length (tasks db) \<le> limit" and "length (projects db) \<le> limit"
  shows "(role u = Some ''admin'' \<or> role u = Some ''project_manager'' \<longrightarrow>
            (\<exists>s. get_dashboard_stats db u = Inr s
               \<and> (\<forall>rs. get_tasks None 0 limit db u = Inr rs \<longrightarrow>
                     total_tasks s = length (filter is_open (map resp_task rs))
                     \<and> completed_tasks s = length (filter is_completed (map resp_task rs)))
               \<and> (\<forall>ps. get_projects 0 limit db u = Inr ps \<longrightarrow>
                     total_projects s = length ps)))
       \<and> (role u = Some ''engineer'' \<or> role u = Some ''technician'' \<longrightarrow>
            (\<exists>s. get_dashboard_stats db u = Inr s
               \<and> (\<forall>rs. get_tasks None 0 limit db u = Inr rs \<longrightarrow>
                     total_tasks s
                       = length (filter (\<lambda>t. on_team db u t \<and> is_open t) (map resp_task rs))
                     \<and> completed_tasks s
                       = length (filter (\<lambda>t. on_team db u t \<and> is_completed t) (map resp_task rs))
                     \<and> (list_all (on_team db u) (map resp_task rs) \<longrightarrow>
                           total_tasks s = length (filter is_open (map resp_task rs))
                           \<and> completed_tasks s
                               = length (filter is_completed (map resp_task rs))))
               \<and> (distinct (map project_id (projects db))
                    \<and> (\<forall>a \<in> set (project_assignments db).
                           pa_project_id a \<in> project_id ` set (projects db)) \<longrightarrow>
                     (\<forall>ps. get_projects 0 limit db u = Inr ps \<longrightarrow>
                        total_projects s = length ps))))"
proof (intro conjI impI)
  assume role: "role u = Some ''admin'' \<or> role u = Some ''project_manager''"
  then obtain s where s: "get_dashboard_stats db u = Inr s"
    "total_tasks s = length (filter is_open
        (if role u = Some ''admin'' then tasks db
         else filter (\<lambda>t. task_project_id t \<in> project_id `
                {p \<in> set (projects db). created_by p = Some (user_id u)}) (tasks db)))"
    "completed_tasks s = length (filter is_completed
        (if role u = Some ''admin'' then tasks db
         else filter (\<lambda>t. task_project_id t \<in> project_id `
                {p \<in> set (projects db). created_by p = Some (user_id u)}) (tasks db)))"
    "total_projects s
       = (if role u = Some ''admin'' then length (projects db)
          else length (filter (\<lambda>p. created_by p = Some (user_id u)) (projects db)))"
    using stats_admin [of u db] stats_pm [of u db] by (cases "role u = Some ''admin''") auto
  have tasks_part: "total_tasks s = length (filter is_open (map resp_task rs))
                    \<and> completed_tasks s = length (filter is_completed (map resp_task rs))"
    if "get_tasks None 0 limit db u = Inr rs" for rs
    unfolding get_tasks_rows [OF assms(1) that] s(2,3) using role by auto
  have projects_part: "total_projects s = length ps"
    if "get_projects 0 limit db u = Inr ps" for ps
    unfolding get_projects_length [OF assms(2) that] s(4) using role by auto
  show "\<exists>s. get_dashboard_stats db u = Inr s
          \<and> (\<forall>rs. get_tasks None 0 limit db u = Inr rs \<longrightarrow>
                total_tasks s = length (filter is_open (map resp_task rs))
                \<and> completed_tasks s = length (filter is_completed (map resp_task rs)))
          \<and> (\<forall>ps. get_projects 0 limit db u = Inr ps \<longrightarrow> total_projects s = length ps)"
    using s(1) tasks_part projects_part by blast
next
  assume role: "role u = Some ''engineer'' \<or> role u = Some ''technician''"
  let ?mine = "filter (\<lambda>t. assigned_to t = Some (user_id u)) (tasks db)"
  obtain s where s: "get_dashboard_stats db u = Inr s"
    "total_tasks s = length (filter (\<lambda>t. on_team db u t \<and> is_open t) ?mine)"
    "completed_tasks s = length (filter (\<lambda>t. on_team db u t \<and> is_completed t) ?mine)"
    "total_projects s = length (remdups (map pa_project_id
        (filter (\<lambda>a. pa_user_id a = user_id u) (project_assignments db))))"
    using stats_engineer_tasks [OF role] by blast
  have rows: "map resp_task rs = ?mine" if "get_tasks None 0 limit db u = Inr rs" for rs
    using get_tasks_rows [OF assms(1) that] role by auto
  have all: "filter (\<lambda>t. on_team db u t \<and> P t) ts = filter P ts"
    if "list_all (on_team db u) ts" for P ts
    using that by (intro filter_cong) (auto simp: list_all_iff)
  have tasks_part: "total_tasks s
                       = length (filter (\<lambda>t. on_team db u t \<and> is_open t) (map resp_task rs))
                     \<and> completed_tasks s
                       = length (filter (\<lambda>t. on_team db u t \<and> is_completed t) (map resp_task rs))
                     \<and> (list_all (on_team db u) (map resp_task rs) \<longrightarrow>
                           total_tasks s = length (filter is_open (map resp_task rs))
                           \<and> completed_tasks s
                               = length (filter is_completed (map resp_task rs)))"
    if "get_tasks None 0 limit db u = Inr rs" for rs
    unfolding rows [OF that] s(2,3) using all [of ?mine] by simp
  have projects_part: "total_projects s = length ps"
    if "distinct (map project_id (projects db))
        \<and> (\<forall>a \<in> set (project_assignments db).
              pa_project_id a \<in> project_id ` set (projects db))"
      and "get_projects 0 limit db u = Inr ps" for ps
    unfolding get_projects_length [OF assms(2) that(2)] s(4)
    using role engineer_project_rows [of db u] that(1) by auto
  show "\<exists>s. get_dashboard_stats db u = Inr s
          \<and> (\<forall>rs. get_tasks None 0 limit db u = Inr rs \<longrightarrow>
                total_tasks s
                  = length (filter (\<lambda>t. on_team db u t \<and> is_open t) (map resp_task rs))
                \<and> completed_tasks s
                  = length (filter (\<lambda>t. on_team db u t \<and> is_completed t) (map resp_task rs))
                \<and> (list_all (on_team db u) (map resp_task rs) \<longrightarrow>
                      total_tasks s = length (filter is_open (map resp_task rs))
                      \<and> completed_tasks s
                          = length (filter is_completed (map resp_task rs))))
          \<and> (distinct (map project_id (projects db))
               \<and> (\<forall>a \<in> set (project_assignments db).
                      pa_project_id a \<in> project_id ` set (projects db)) \<longrightarrow>
                (\<forall>ps. get_projects 0 limit db u = Inr ps \<longrightarrow>
                   total_projects s = length ps))"
    using s(1) tasks_part projects_part by blast
qed


theorem dashboard_counts_vs_lists_witness:
  "(\<exists>s rs ps. get_dashboard_stats yard bob = Inr s
      \<and> get_tasks None 0 100 yard bob = Inr rs
      \<and> get_projects 0 100 yard bob = Inr ps
      \<and> total_tasks s = length (filter is_open (map resp_task rs))
      \<and> completed_tasks s = length (filter is_completed (map resp_task rs))
      \<and> total_projects s = length ps)
   \<and> (\<exists>s rs ps. get_dashboard_stats yard carol = Inr s
      \<and> get_tasks None 0 100 yard carol = Inr rs
      \<and> get_projects 0 100 yard carol = Inr ps
      \<and> total_tasks s = length (filter is_open (map resp_task rs))
      \<and> completed_tasks s = length (filter is_completed (map resp_task rs))
      \<and> total_projects s = length ps)"
proof -
  have tl: "length (tasks yard) \<le> 100" and pl: "length (projects yard) \<le> 100"
    by (simp_all add: yard_def)
  have pm: "role bob = Some ''admin'' \<or> role bob = Some ''project_manager''"
    by (simp add: bob_def)
  have eng: "role carol = Some ''engineer'' \<or> role carol = Some ''technician''"
    by (simp add: carol_def)
  have bob_tasks: "get_tasks None 0 100 yard bob
                     = Inr (map (enrich_task yard) [weld_task, paint_task, pump_task])"
    by code_simp
  have bob_projects: "get_projects 0 100 yard bob
                        = Inr (map (enrich_project yard) [hull_refit, engine_overhaul])"
    by code_simp
  have carol_tasks: "get_tasks None 0 100 yard carol = Inr (map (enrich_task yard) [weld_task])"
    by code_simp
  have carol_projects: "get_projects 0 100 yard carol
                          = Inr (map (enrich_project yard) [hull_refit])"
    by code_simp
  have team: "list_all (on_team yard carol)
                (map resp_task (map (enrich_task yard) [weld_task]))"
    by code_simp
  have keys: "distinct (map project_id (projects yard))
              \<and> (\<forall>a \<in> set (project_assignments yard).
                    pa_project_id a \<in> project_id ` set (projects yard))"
    by code_simp
  have first: "\<exists>s rs ps. get_dashboard_stats yard bob = Inr s
      \<and> get_tasks None 0 100 yard bob = Inr rs
      \<and> get_projects 0 100 yard bob = Inr ps
      \<and> total_tasks s = length (filter is_open (map resp_task rs))
      \<and> completed_tasks s = length (filter is_completed (map resp_task rs))
      \<and> total_projects s = length ps"
    using dashboard_counts_vs_lists [OF tl pl, of bob] pm bob_tasks bob_projects by blast
  have second: "\<exists>s rs ps. get_dashboard_stats yard carol = Inr s
      \<and> get_tasks None 0 100 yard carol = Inr rs
      \<and> get_projects 0 100 yard carol = Inr ps
      \<and> total_tasks s = length (filter is_open (map resp_task rs))
      \<and> completed_tasks s = length (filter is_completed (map resp_task rs))
      \<and> total_projects s = length ps"
    using dashboard_counts_vs_lists [OF tl pl, of carol] eng carol_tasks carol_projects team keys
    by blast
  show ?thesis
    using first second by (rule conjI)
qed

text \<open>
  Claim C7 as stated fails. In the store left by the empty team replacement, the task
  list of the engineer Carol returns task 1, which is assigned to her, while the stats
  service counts no task for her: she is on no team, and the count asks for both.
\<close>

theorem engineer_counts_differ_from_list:
  "role carol = Some ''engineer''
   \<and> get_tasks None 0 100 yard_without_team carol
       = Inr [\<lparr> resp_task = weld_task, resp_project_name = ''Hull refit'',
                assigned_to_name = ''Carol'' \<rparr>]
   \<and> get_dashboard_stats yard_without_team carol
       = Inr \<lparr> total_projects = 0, total_tasks = 0, completed_tasks = 0,
               total_inventory = 2, low_stock_items = 1 \<rparr>"
  by code_simp

end
